theory Spec2Isabelle
  imports Complex_Main "HOL-Library.AList"
begin

section \<open>Word-level language identification: a shallow embedding\<close>

text \<open>
  The development follows \<^verbatim>\<open>LanguageModel.py\<close> (lexicon, character n-gram model,
  training) and \<^verbatim>\<open>LanguageIdentifier.py\<close> (score combination, independent and
  Viterbi decoding).

  Conventions of the embedding:
  \<^item> a Python \<^verbatim>\<open>str\<close> is a \<open>string\<close>; \<^verbatim>\<open>lower()\<close> acts on the ASCII letters;
  \<^item> a Python \<^verbatim>\<open>float\<close> is the real number that is its value (infinities and NaN are
    not modelled: \<^verbatim>\<open>math.exp\<close>, \<^verbatim>\<open>math.log\<close> and the division raise where they
    would arise); floats are compared as reals;
  \<^item> the floating-point operations of \<^verbatim>\<open>char_score\<close>, of \<^verbatim>\<open>score\<close> and of the
    decoder are those of an arithmetic given as a parameter, of which nothing is known
    but what a theorem assumes: sums, differences, products and quotients are rounded,
    \<^verbatim>\<open>math.exp\<close> can underflow to zero or raise \<^verbatim>\<open>OverflowError\<close>;
  \<^item> \<^verbatim>\<open>load_lexicon\<close> and \<^verbatim>\<open>train\<close> compute the values of their tables without
    rounding; the statements about them concern the keys of the tables;
  \<^item> a \<^verbatim>\<open>dict\<close> is an association list in insertion order; \<open>AList.update\<close>
    overwrites a key in place and appends a new key, as a Python \<^verbatim>\<open>dict\<close> does;
  \<^item> a \<^verbatim>\<open>dict\<close> whose keys are exactly the two language codes (\<^verbatim>\<open>scores\<close>,
    \<^verbatim>\<open>V[t]\<close>, \<^verbatim>\<open>S[t]\<close>, \<^verbatim>\<open>self.model\<close>) is a pair: first
    component \<^verbatim>\<open>GA\<close>, second component \<^verbatim>\<open>EN\<close>;
  \<^item> an exception is a value \<open>Inl e\<close> of the result type \<open>py_error + 'a\<close>;
  \<^item> a lexicon file is the list of its lines after \<^verbatim>\<open>line.strip().split()\<close> and
    \<^verbatim>\<open>int(fields[1])\<close>: pairs of a word and its frequency.
\<close>

subsection \<open>Exceptions and arithmetic that can raise\<close>

datatype py_error = IndexError | KeyError | ValueError | ZeroDivisionError | OverflowError

definition bind_err :: "'e + 'a \<Rightarrow> ('a \<Rightarrow> 'e + 'b) \<Rightarrow> 'e + 'b" where
  "bind_err m f = (case m of Inl e \<Rightarrow> Inl e | Inr x \<Rightarrow> f x)"

fun mapM_err :: "('a \<Rightarrow> 'e + 'b) \<Rightarrow> 'a list \<Rightarrow> 'e + 'b list" where
  "mapM_err f [] = Inr []"
| "mapM_err f (x # xs) =
     bind_err (f x) (\<lambda>y. bind_err (mapM_err f xs) (\<lambda>ys. Inr (y # ys)))"

fun foldM_err :: "('s \<Rightarrow> 'a \<Rightarrow> 'e + 's) \<Rightarrow> 's \<Rightarrow> 'a list \<Rightarrow> 'e + 's" where
  "foldM_err f s [] = Inr s"
| "foldM_err f s (x # xs) = bind_err (f s x) (\<lambda>s'. foldM_err f s' xs)"

text \<open>\<^verbatim>\<open>math.log(x)\<close> raises \<^verbatim>\<open>ValueError\<close> unless \<open>x\<close> is positive.\<close>

definition py_log :: "real \<Rightarrow> py_error + real" where
  "py_log x = (if 0 < x then Inr (ln x) else Inl ValueError)"

text \<open>\<^verbatim>\<open>x / y\<close> on floats raises \<^verbatim>\<open>ZeroDivisionError\<close> when \<open>y\<close> is zero.\<close>

definition py_div :: "real \<Rightarrow> real \<Rightarrow> py_error + real" where
  "py_div x y = (if y = 0 then Inl ZeroDivisionError else Inr (x / y))"

subsection \<open>Floating-point arithmetic\<close>

text \<open>
  The arithmetic of the floats: the rounded sum, difference, product and quotient of two
  floats, \<^verbatim>\<open>math.exp\<close> with its \<^verbatim>\<open>OverflowError\<close>, and \<^verbatim>\<open>math.log\<close> of a
  positive float. \<^verbatim>\<open>math.log\<close> raises \<^verbatim>\<open>ValueError\<close> unless its argument is
  positive, and the division raises \<^verbatim>\<open>ZeroDivisionError\<close> on a zero divisor,
  whatever the arithmetic is.
\<close>

record arith =
  f_add :: "real \<Rightarrow> real \<Rightarrow> real"
  f_sub :: "real \<Rightarrow> real \<Rightarrow> real"
  f_mul :: "real \<Rightarrow> real \<Rightarrow> real"
  f_div :: "real \<Rightarrow> real \<Rightarrow> real"
  f_exp :: "real \<Rightarrow> py_error + real"
  f_log :: "real \<Rightarrow> real"

definition math_exp :: "arith \<Rightarrow> real \<Rightarrow> py_error + real" where
  "math_exp fa x = f_exp fa x"

definition math_log :: "arith \<Rightarrow> real \<Rightarrow> py_error + real" where
  "math_log fa x = (if 0 < x then Inr (f_log fa x) else Inl ValueError)"

definition float_div :: "arith \<Rightarrow> real \<Rightarrow> real \<Rightarrow> py_error + real" where
  "float_div fa x y = (if y = 0 then Inl ZeroDivisionError else Inr (f_div fa x y))"

subsection \<open>Dictionaries and strings\<close>

type_synonym ('k, 'v) dict = "('k \<times> 'v) list"

text \<open>\<^verbatim>\<open>d[k]\<close> raises \<^verbatim>\<open>KeyError\<close> on a missing key; \<^verbatim>\<open>d.get(k, v)\<close> does not.\<close>

definition dict_item :: "('k, 'v) dict \<Rightarrow> 'k \<Rightarrow> py_error + 'v" where
  "dict_item d k = (case map_of d k of None \<Rightarrow> Inl KeyError | Some v \<Rightarrow> Inr v)"

definition dict_get :: "('k, 'v) dict \<Rightarrow> 'k \<Rightarrow> 'v \<Rightarrow> 'v" where
  "dict_get d k v = (case map_of d k of None \<Rightarrow> v | Some w \<Rightarrow> w)"

definition dict_has :: "('k, 'v) dict \<Rightarrow> 'k \<Rightarrow> bool" where
  "dict_has d k = (map_of d k \<noteq> None)"

definition lower_char :: "char \<Rightarrow> char" where
  "lower_char c =
     (let k = (of_char c :: nat) in if 65 \<le> k \<and> k \<le> 90 then char_of (k + 32) else c)"

definition lower :: "string \<Rightarrow> string" where
  "lower s = map lower_char s"

subsection \<open>LanguageModel.py\<close>

definition START :: string where "START = ''<''"
definition END :: string where "END = ''>''"
definition UNKNOWN :: string where "UNKNOWN = ''UNKNOWN''"
definition OOV :: string where "OOV = ''###''"
definition CASE_SENSITIVITY_THRESHOLD :: nat where "CASE_SENSITIVITY_THRESHOLD = 4"

record LanguageModel =
  language :: string
  n :: nat
  lex_file :: "(string \<times> int) list"
  lex_weight :: real
  char_weight :: real
  start_prob :: "(string, real) dict"
  trans_prob :: "(string, (string, real) dict) dict"
  lex :: "(string, real) dict"

text \<open>
  \<^verbatim>\<open>word2ngrams\<close>: the word between start and end symbols, doubled when \<open>n \<ge> 4\<close>,
  cut into the slices \<^verbatim>\<open>word[i:i+n]\<close> for \<^verbatim>\<open>i in range(len(word)-n+1)\<close>. The range
  is empty when \<open>n\<close> exceeds the length of the padded word, which the truncating
  subtraction on \<open>nat\<close> gives as well.
\<close>

definition slices :: "string \<Rightarrow> nat \<Rightarrow> nat \<Rightarrow> string list" where
  "slices w k m = map (\<lambda>i. take k (drop i w)) [0 ..< m]"

definition word2ngrams :: "string \<Rightarrow> nat \<Rightarrow> string list" where
  "word2ngrams word k =
     (let word1 = START @ word @ END;
          word2 = (if k \<ge> 4 then START @ word1 @ END else word1)
      in slices word2 k (length word2 + 1 - k))"

text \<open>
  \<^verbatim>\<open>load_lexicon\<close>: add-0.1 smoothed relative frequencies as log probabilities, with
  the out-of-lexicon entry.
\<close>

definition lex_key :: "string \<Rightarrow> string" where
  "lex_key word = (if length word \<ge> CASE_SENSITIVITY_THRESHOLD then lower word else word)"

definition lex_count_line ::
  "real \<Rightarrow> (string, real) dict \<times> int \<Rightarrow> string \<times> int \<Rightarrow> (string, real) dict \<times> int" where
  "lex_count_line lamb acc line =
     (case acc of (lx, tot) \<Rightarrow> (case line of (field0, field1) \<Rightarrow>
        (let word = lex_key field0
         in (AList.update word (dict_get lx word lamb + real_of_int field1) lx,
             tot + field1))))"

definition load_lexicon :: "(string \<times> int) list \<Rightarrow> py_error + (string, real) dict" where
  "load_lexicon file =
     (let lamb = 1 / 10 in
      case foldl (lex_count_line lamb) ([], 0) file of (lx0, tot) \<Rightarrow>
        (let lx = AList.update OOV lamb lx0;
             denominator = real_of_int tot + lamb * real (length lx)
         in mapM_err (\<lambda>(word, c).
               bind_err (py_div c denominator) (\<lambda>q.
               bind_err (py_log q) (\<lambda>l. Inr (word, l)))) lx))"

text \<open>\<^verbatim>\<open>__init__\<close>: empty probability tables, the lexicon loaded from the file.\<close>

definition LanguageModel_init ::
  "string \<Rightarrow> nat \<Rightarrow> (string \<times> int) list \<Rightarrow> real \<Rightarrow> py_error + LanguageModel" where
  "LanguageModel_init lang k file lw =
     bind_err (load_lexicon file) (\<lambda>lx.
       Inr \<lparr>language = lang, n = k, lex_file = file, lex_weight = lw, char_weight = 1 - lw,
            start_prob = [], trans_prob = [], lex = lx\<rparr>)"

text \<open>
  \<^verbatim>\<open>lex_score\<close>: the default \<^verbatim>\<open>self.lex[self.OOV]\<close> is evaluated before the lookup,
  so a lexicon without that entry raises whatever the word is.
\<close>

definition lex_score :: "LanguageModel \<Rightarrow> string \<Rightarrow> py_error + real" where
  "lex_score self word =
     bind_err (dict_item (lex self) OOV) (\<lambda>oov. Inr (dict_get (lex self) (lex_key word) oov))"

text \<open>
  \<^verbatim>\<open>char_score\<close>. Each lookup is recorded with the branch that served it; the source
  marks the two transition fallbacks in its debug string (\<^verbatim>\<open>XX\<close> and \<^verbatim>\<open>X\<close>).
\<close>

datatype lookup = Direct | UnknownStart | UnknownSource | UnknownTarget

definition start_lookup :: "LanguageModel \<Rightarrow> string \<Rightarrow> py_error + (lookup \<times> real)" where
  "start_lookup self g =
     (if \<not> dict_has (start_prob self) g
      then bind_err (dict_item (start_prob self) UNKNOWN) (\<lambda>p. Inr (UnknownStart, p))
      else bind_err (dict_item (start_prob self) g) (\<lambda>p. Inr (Direct, p)))"

definition trans_lookup ::
  "LanguageModel \<Rightarrow> string \<times> string \<Rightarrow> py_error + (lookup \<times> real)" where
  "trans_lookup self gg = (case gg of (g, g') \<Rightarrow>
     (if \<not> dict_has (trans_prob self) g
      then bind_err (dict_item (trans_prob self) UNKNOWN) (\<lambda>row.
           bind_err (dict_item row UNKNOWN) (\<lambda>p. Inr (UnknownSource, p)))
      else bind_err (dict_item (trans_prob self) g) (\<lambda>row.
           if \<not> dict_has row g'
           then bind_err (dict_item row UNKNOWN) (\<lambda>p. Inr (UnknownTarget, p))
           else bind_err (dict_item row g') (\<lambda>p. Inr (Direct, p)))))"

definition char_score_lookups ::
  "LanguageModel \<Rightarrow> string \<Rightarrow> py_error + (lookup \<times> real) list" where
  "char_score_lookups self word =
     (case word2ngrams word (n self) of
        [] \<Rightarrow> Inl IndexError
      | g0 # gs \<Rightarrow>
          bind_err (start_lookup self g0) (\<lambda>s.
          bind_err (mapM_err (trans_lookup self) (zip (g0 # gs) gs)) (\<lambda>ts.
          Inr (s # ts))))"

definition char_score :: "arith \<Rightarrow> LanguageModel \<Rightarrow> string \<Rightarrow> py_error + real" where
  "char_score fa self word =
     bind_err (char_score_lookups self word) (\<lambda>ls. Inr (foldl (f_add fa) 0 (map snd ls)))"

text \<open>The branches taken by the lookups of \<open>char_score\<close>, in order.\<close>

definition lookup_kinds :: "LanguageModel \<Rightarrow> string \<Rightarrow> py_error + lookup list" where
  "lookup_kinds self word = bind_err (char_score_lookups self word) (\<lambda>ls. Inr (map fst ls))"

text \<open>
  \<^verbatim>\<open>train\<close>. The first loop counts, the second part turns the counts into log
  probabilities and writes them into the tables of the model.
\<close>

record counts =
  token_total :: int
  start_count :: "(string, real) dict"
  trans_count :: "(string, (string, real) dict) dict"
  trans_total :: "(string, int) dict"
  charset :: "char list"

definition count_transition :: "real \<Rightarrow> int \<Rightarrow> nat \<Rightarrow> string \<Rightarrow> nat \<Rightarrow> counts \<Rightarrow> counts" where
  "count_transition lamb token_count k token i c =
     (let g = take k (drop i token);
          g' = take k (drop (i + 1) token);
          tc = (if \<not> dict_has (trans_count c) g
                then AList.update g [] (trans_count c) else trans_count c);
          row = dict_get tc g []
      in c\<lparr>trans_count :=
              AList.update g (AList.update g' (dict_get row g' lamb + real_of_int token_count) row) tc,
            trans_total :=
              AList.update g (dict_get (trans_total c) g 0 + token_count) (trans_total c)\<rparr>)"

definition count_line :: "real \<Rightarrow> nat \<Rightarrow> string \<times> int \<Rightarrow> counts \<Rightarrow> counts" where
  "count_line lamb k line c = (case line of (field0, field1) \<Rightarrow>
     (let token = START @ field0 @ END;
          token_count = field1;
          c1 = c\<lparr>token_total := token_total c + token_count,
                 charset := fold List.insert token (charset c),
                 start_count :=
                   AList.update (take k token)
                     (dict_get (start_count c) (take k token) lamb + real_of_int token_count)
                     (start_count c)\<rparr>
      in fold (count_transition lamb token_count k token) [0 ..< length token - k] c1))"

definition count_file :: "real \<Rightarrow> nat \<Rightarrow> (string \<times> int) list \<Rightarrow> counts" where
  "count_file lamb k file =
     fold (count_line lamb k) file
       \<lparr>token_total = 0, start_count = [], trans_count = [], trans_total = [], charset = []\<rparr>"

definition log_ratio :: "real \<Rightarrow> real \<Rightarrow> py_error + real" where
  "log_ratio x denominator = bind_err (py_div x denominator) py_log"

definition train_start ::
  "real \<Rightarrow> (string, real) dict \<Rightarrow> string \<times> real \<Rightarrow> py_error + (string, real) dict" where
  "train_start denominator sp entry = (case entry of (ngram, cnt) \<Rightarrow>
     bind_err (log_ratio cnt denominator) (\<lambda>l. Inr (AList.update ngram l sp)))"

definition train_trans ::
  "real \<Rightarrow> (string, int) dict \<Rightarrow> (string, (string, real) dict) dict \<Rightarrow>
   string \<times> (string, real) dict \<Rightarrow> py_error + (string, (string, real) dict) dict" where
  "train_trans lamb tt tp entry = (case entry of (ngram, row) \<Rightarrow>
     bind_err (dict_item tt ngram) (\<lambda>total_g.
       (let denominator = real_of_int total_g + lamb * (real (length row) + 1) in
        bind_err (foldM_err (train_start denominator) [] row) (\<lambda>new_row.
        bind_err (log_ratio lamb denominator) (\<lambda>l.
        Inr (AList.update ngram (AList.update UNKNOWN l new_row) tp))))))"

definition train :: "LanguageModel \<Rightarrow> real \<Rightarrow> py_error + LanguageModel" where
  "train self smooth_lambda =
     (let lamb = smooth_lambda;
          c = count_file lamb (n self) (lex_file self)
      in bind_err (log_ratio 1 (real (length (charset c)) + 1)) (\<lambda>uu.
         (let tp1 = AList.update UNKNOWN [(UNKNOWN, uu)] (trans_prob self);
              denominator = real_of_int (token_total c) + lamb * (real (length (start_count c)) + 1)
          in bind_err (foldM_err (train_start denominator) (start_prob self) (start_count c)) (\<lambda>sp1.
             bind_err (log_ratio lamb denominator) (\<lambda>l.
             bind_err (foldM_err (train_trans lamb (trans_total c)) tp1 (trans_count c)) (\<lambda>tp2.
             Inr (self\<lparr>start_prob := AList.update UNKNOWN l sp1, trans_prob := tp2\<rparr>)))))))"

subsection \<open>LanguageIdentifier.py\<close>

definition GA :: string where "GA = ''ga''"
definition EN :: string where "EN = ''en''"
definition IGNORE :: string where "IGNORE = ''##IGNORE##''"

definition langs :: "string list" where "langs = [GA, EN]"

text \<open>
  The identifier holds the lexicon weight and the two models, \<^verbatim>\<open>self.model[GA]\<close>
  first. \<open>lang_item d l\<close> reads a two-language dictionary at a language code; the
  source reads such a dictionary at \<^verbatim>\<open>GA\<close>, at \<^verbatim>\<open>EN\<close> or at an element of
  \<^verbatim>\<open>langs\<close> only.
\<close>

record LanguageIdentifier =
  id_lex_weight :: real
  model :: "LanguageModel \<times> LanguageModel"

definition lang_item :: "'a \<times> 'a \<Rightarrow> string \<Rightarrow> 'a" where
  "lang_item d l = (if l = GA then fst d else snd d)"

definition list_item :: "'a list \<Rightarrow> nat \<Rightarrow> py_error + 'a" where
  "list_item xs i = (if i < length xs then Inr (xs ! i) else Inl IndexError)"

text \<open>
  \<^verbatim>\<open>score\<close>. The raw scores are computed language by language, the lexicon score
  before the character score; the relative scores in the order of the source. The test
  for the out-of-lexicon case is a Python \<^verbatim>\<open>and\<close>: its second operand is evaluated
  only when the first holds.
\<close>

definition raw_scores :: "arith \<Rightarrow> LanguageModel \<Rightarrow> string \<Rightarrow> py_error + (real \<times> real)" where
  "raw_scores fa m word =
     bind_err (lex_score m word) (\<lambda>l.
     bind_err (math_exp fa l) (\<lambda>lex_sc.
     bind_err (char_score fa m word) (\<lambda>c.
     bind_err (math_exp fa c) (\<lambda>char_sc. Inr (lex_sc, char_sc)))))"

definition relative :: "arith \<Rightarrow> real \<times> real \<Rightarrow> string \<Rightarrow> py_error + real" where
  "relative fa sc lang =
     float_div fa (lang_item sc lang) (f_add fa (lang_item sc GA) (lang_item sc EN))"

definition only_char :: "arith \<Rightarrow> real \<times> real \<Rightarrow> py_error + (real \<times> real)" where
  "only_char fa char_score_rel =
     bind_err (math_log fa (lang_item char_score_rel GA)) (\<lambda>wg.
     bind_err (math_log fa (lang_item char_score_rel EN)) (\<lambda>we. Inr (wg, we)))"

definition mixed :: "arith \<Rightarrow> real \<Rightarrow> real \<times> real \<Rightarrow> real \<times> real \<Rightarrow> string \<Rightarrow> real" where
  "mixed fa lw lex_score_rel char_score_rel lang =
     f_add fa (f_mul fa lw (lang_item lex_score_rel lang))
              (f_mul fa (f_sub fa 1 lw) (lang_item char_score_rel lang))"

definition combined ::
  "arith \<Rightarrow> real \<Rightarrow> real \<times> real \<Rightarrow> real \<times> real \<Rightarrow> py_error + (real \<times> real)" where
  "combined fa lw lex_score_rel char_score_rel =
     bind_err (math_log fa (mixed fa lw lex_score_rel char_score_rel GA)) (\<lambda>wg.
     bind_err (math_log fa (mixed fa lw lex_score_rel char_score_rel EN)) (\<lambda>we. Inr (wg, we)))"

definition weighted_score ::
  "arith \<Rightarrow> LanguageIdentifier \<Rightarrow> real \<times> real \<Rightarrow> real \<times> real \<Rightarrow> py_error + (real \<times> real)" where
  "weighted_score fa self lex_sc char_sc =
     bind_err (relative fa lex_sc GA) (\<lambda>lex_rel_ga.
     bind_err (relative fa char_sc GA) (\<lambda>char_rel_ga.
     bind_err (relative fa lex_sc EN) (\<lambda>lex_rel_en.
     bind_err (relative fa char_sc EN) (\<lambda>char_rel_en.
     bind_err (lex_score (lang_item (model self) GA) OOV) (\<lambda>oov_ga.
     bind_err (math_exp fa oov_ga) (\<lambda>raw_oov_ga.
       if lang_item lex_sc GA = raw_oov_ga
       then bind_err (lex_score (lang_item (model self) EN) OOV) (\<lambda>oov_en.
            bind_err (math_exp fa oov_en) (\<lambda>raw_oov_en.
              if lang_item lex_sc EN = raw_oov_en
              then only_char fa (char_rel_ga, char_rel_en)
              else combined fa (id_lex_weight self) (lex_rel_ga, lex_rel_en)
                     (char_rel_ga, char_rel_en)))
       else combined fa (id_lex_weight self) (lex_rel_ga, lex_rel_en)
              (char_rel_ga, char_rel_en)))))))"

definition score :: "arith \<Rightarrow> LanguageIdentifier \<Rightarrow> string \<Rightarrow> py_error + (real \<times> real)" where
  "score fa self word =
     (if word = IGNORE then Inr (1, 1)
      else
        bind_err (raw_scores fa (lang_item (model self) GA) word) (\<lambda>ga.
        bind_err (raw_scores fa (lang_item (model self) EN) word) (\<lambda>en.
        weighted_score fa self (fst ga, fst en) (snd ga, snd en))))"

text \<open>
  \<^verbatim>\<open>max_argmax\<close>: Python's \<^verbatim>\<open>max\<close> keeps the first of several maximal elements,
  and raises \<^verbatim>\<open>ValueError\<close> on an empty sequence.
\<close>

fun max_from :: "nat \<times> real \<Rightarrow> (nat \<times> real) list \<Rightarrow> nat \<times> real" where
  "max_from best [] = best"
| "max_from best (x # xs) = max_from (if snd x > snd best then x else best) xs"

definition max_argmax :: "real list \<Rightarrow> py_error + (nat \<times> real)" where
  "max_argmax iterable =
     (case enumerate 0 iterable of [] \<Rightarrow> Inl ValueError | x # xs \<Rightarrow> Inr (max_from x xs))"

text \<open>\<^verbatim>\<open>identify_independent\<close>.\<close>

fun identify_independent ::
  "arith \<Rightarrow> LanguageIdentifier \<Rightarrow> string list \<Rightarrow> py_error + string list" where
  "identify_independent fa self [] = Inr []"
| "identify_independent fa self (token # tokens) =
     bind_err (score fa self token) (\<lambda>scores.
     bind_err (identify_independent fa self tokens) (\<lambda>languages.
     Inr ((if lang_item scores GA \<ge> lang_item scores EN then GA else EN) # languages)))"

text \<open>
  \<^verbatim>\<open>identify_viterbi\<close>. \<open>V\<close> is the list of the pairs \<^verbatim>\<open>V[t]\<close>; \<open>S\<close> is the list of
  the dictionaries \<^verbatim>\<open>S[t]\<close>, whose first element stays empty as in the source.
\<close>

definition trans_p :: "arith \<Rightarrow> real \<Rightarrow> string \<Rightarrow> string \<Rightarrow> real" where
  "trans_p fa transition_probability lang2 lang =
     (if lang2 = lang then transition_probability else f_sub fa 1 transition_probability)"

definition viterbi_term ::
  "arith \<Rightarrow> real \<times> real \<Rightarrow> real \<Rightarrow> real \<times> real \<Rightarrow> string \<Rightarrow> string \<Rightarrow> py_error + real" where
  "viterbi_term fa Vprev tp scores lang lang2 =
     bind_err (math_log fa (trans_p fa tp lang2 lang)) (\<lambda>l.
     Inr (f_add fa (f_add fa (lang_item Vprev lang2) l) (lang_item scores lang)))"

definition viterbi_lang ::
  "arith \<Rightarrow> real \<times> real \<Rightarrow> real \<Rightarrow> real \<times> real \<Rightarrow> string \<Rightarrow> py_error + (real \<times> string)" where
  "viterbi_lang fa Vprev tp scores lang =
     bind_err (mapM_err (viterbi_term fa Vprev tp scores lang) langs) (\<lambda>terms.
     bind_err (max_argmax terms) (\<lambda>r. case r of (maxlang, prob) \<Rightarrow>
     bind_err (list_item langs maxlang) (\<lambda>l. Inr (prob, l))))"

definition viterbi_step ::
  "arith \<Rightarrow> LanguageIdentifier \<Rightarrow> real \<Rightarrow> real \<times> real \<Rightarrow> string \<Rightarrow>
   py_error + ((real \<times> real) \<times> (string, string) dict)" where
  "viterbi_step fa self tp Vprev token =
     bind_err (score fa self token) (\<lambda>scores.
     bind_err (viterbi_lang fa Vprev tp scores GA) (\<lambda>rg.
     bind_err (viterbi_lang fa Vprev tp scores EN) (\<lambda>re.
     Inr ((fst rg, fst re), [(GA, snd rg), (EN, snd re)]))))"

fun viterbi_forward ::
  "arith \<Rightarrow> LanguageIdentifier \<Rightarrow> real \<Rightarrow> (real \<times> real) list \<Rightarrow> (string, string) dict list \<Rightarrow>
   string list \<Rightarrow> py_error + ((real \<times> real) list \<times> (string, string) dict list)" where
  "viterbi_forward fa self tp V S [] = Inr (V, S)"
| "viterbi_forward fa self tp V S (token # tokens) =
     bind_err (viterbi_step fa self tp (last V) token) (\<lambda>r.
     viterbi_forward fa self tp (V @ [fst r]) (S @ [snd r]) tokens)"

text \<open>
  The path is rebuilt from the last position: \<open>backtrack S t l\<close> gives the labels of the
  positions \<open>0..t\<close> when position \<open>t\<close> has the label \<open>l\<close>.
\<close>

fun backtrack :: "(string, string) dict list \<Rightarrow> nat \<Rightarrow> string \<Rightarrow> py_error + string list" where
  "backtrack S 0 l = Inr [l]"
| "backtrack S (Suc t) l =
     bind_err (list_item S (Suc t)) (\<lambda>St.
     bind_err (dict_item St l) (\<lambda>l'.
     bind_err (backtrack S t l') (\<lambda>languages. Inr (languages @ [l]))))"

definition identify_viterbi ::
  "arith \<Rightarrow> LanguageIdentifier \<Rightarrow> string list \<Rightarrow> real \<Rightarrow> real \<Rightarrow> py_error + string list" where
  "identify_viterbi fa self tokens transition_probability start_probability =
     bind_err (list_item tokens 0) (\<lambda>token0.
     bind_err (score fa self token0) (\<lambda>scores.
     bind_err (math_log fa start_probability) (\<lambda>a.
     bind_err (math_log fa (f_sub fa 1 start_probability)) (\<lambda>b.
     bind_err (viterbi_forward fa self transition_probability
                 [(f_add fa a (lang_item scores GA), f_add fa b (lang_item scores EN))] [[]]
                 (drop 1 tokens)) (\<lambda>VS.
     bind_err (max_argmax (map (lang_item (last (fst VS))) langs)) (\<lambda>r.
     bind_err (list_item langs (fst r)) (\<lambda>l.
     backtrack (snd VS) (length tokens - 1) l)))))))"

text \<open>
  \<^verbatim>\<open>identify\<close>. A call that falls through both tests of the method returns
  \<^verbatim>\<open>None\<close>, the result \<open>Inr None\<close>.
\<close>

definition identify ::
  "arith \<Rightarrow> LanguageIdentifier \<Rightarrow> string list \<Rightarrow> string \<Rightarrow> real \<Rightarrow> real \<Rightarrow>
   py_error + string list option" where
  "identify fa self tokens method transition_probability start_probability =
     (if length tokens = 1 \<and> lower (tokens ! 0) = ''sea'' then Inr (Some [GA])
      else if method = ''independent''
        then bind_err (identify_independent fa self tokens) (\<lambda>ls. Inr (Some ls))
      else if method = ''viterbi''
        then bind_err (identify_viterbi fa self tokens transition_probability start_probability)
               (\<lambda>ls. Inr (Some ls))
      else Inr None)"

text \<open>
  The second copy of the identifier, under \<^verbatim>\<open>word-level-language-id/\<close>, names the
  first language \<^verbatim>\<open>FR\<close> (still the class constant \<^verbatim>\<open>"ga"\<close>) and tests it before
  the special case; the rest of \<^verbatim>\<open>identify\<close> is the same.
\<close>

definition FR :: string where "FR = ''ga''"

definition identify_FR ::
  "arith \<Rightarrow> LanguageIdentifier \<Rightarrow> string list \<Rightarrow> string \<Rightarrow> real \<Rightarrow> real \<Rightarrow>
   py_error + string list option" where
  "identify_FR fa self tokens method transition_probability start_probability =
     (if FR = ''ga'' \<and> length tokens = 1 \<and> lower (tokens ! 0) = ''sea'' then Inr (Some [FR])
      else if method = ''independent''
        then bind_err (identify_independent fa self tokens) (\<lambda>ls. Inr (Some ls))
      else if method = ''viterbi''
        then bind_err (identify_viterbi fa self tokens transition_probability start_probability)
               (\<lambda>ls. Inr (Some ls))
      else Inr None)"

subsection \<open>Example inputs\<close>

text \<open>
  Two arithmetics to evaluate the examples with. The first does not round. The second
  differs from it in \<^verbatim>\<open>math.exp\<close>, which gives zero below \<open>-746\<close> and raises above
  \<open>710\<close>, where the \<^verbatim>\<open>math.exp\<close> of 64-bit floats does (it does so from about
  \<open>-745.14\<close> and \<open>709.79\<close> on).
\<close>

definition exact_arith :: arith where
  "exact_arith = \<lparr>f_add = (+), f_sub = (-), f_mul = (*), f_div = (/),
                   f_exp = (\<lambda>x. Inr (exp x)), f_log = ln\<rparr>"

definition underflow_exp :: "real \<Rightarrow> py_error + real" where
  "underflow_exp x =
     (if 710 < x then Inl OverflowError else if x < - 746 then Inr 0 else Inr (exp x))"

definition underflow_arith :: arith where
  "underflow_arith = exact_arith\<lparr>f_exp := underflow_exp\<rparr>"

text \<open>A token of 500 letters, in no lexicon, none of whose n-grams is in a table.\<close>

definition long_token :: string where
  "long_token = replicate 500 (CHR ''q'')"

text \<open>
  An identifier whose two models have no table at all: every call of \<open>score\<close> on a
  word other than the ignore token raises \<^verbatim>\<open>KeyError\<close> in \<open>lex_score\<close>.
\<close>

definition bare_model :: LanguageModel where
  "bare_model = \<lparr>language = ''ga'', n = 2, lex_file = [], lex_weight = 1, char_weight = 0,
                  start_prob = [], trans_prob = [], lex = []\<rparr>"

definition bare_identifier :: LanguageIdentifier where
  "bare_identifier = \<lparr>id_lex_weight = 1, model = (bare_model, bare_model)\<rparr>"

text \<open>
  The two models of the specification's example, built by \<^verbatim>\<open>__init__\<close> and
  \<^verbatim>\<open>train\<close> from the lexicons \<^verbatim>\<open>ab 10, ac 5\<close> and \<^verbatim>\<open>xy 10, xz 5\<close> at the order 2,
  and their identifier. \<open>model_of\<close> reads the model out of a result.
\<close>

definition model_of :: "py_error + LanguageModel \<Rightarrow> LanguageModel" where
  "model_of r = (case r of Inl e \<Rightarrow> bare_model | Inr m \<Rightarrow> m)"

definition toy_fresh_ga :: LanguageModel where
  "toy_fresh_ga = model_of (LanguageModel_init ''ga'' 2 [(''ab'', 10), (''ac'', 5)] 1)"

definition toy_fresh_en :: LanguageModel where
  "toy_fresh_en = model_of (LanguageModel_init ''en'' 2 [(''xy'', 10), (''xz'', 5)] 1)"

definition toy_ga :: LanguageModel where
  "toy_ga = model_of (train toy_fresh_ga (1 / 1000))"

definition toy_en :: LanguageModel where
  "toy_en = model_of (train toy_fresh_en (1 / 1000))"

definition toy_identifier :: LanguageIdentifier where
  "toy_identifier = \<lparr>id_lex_weight = 1, model = (toy_ga, toy_en)\<rparr>"




subsection \<open>Tables with their fallback entries\<close>

text \<open>
  Every row of the transition table has the \<^verbatim>\<open>UNKNOWN\<close> entry; the start table and
  the transition table have the \<^verbatim>\<open>UNKNOWN\<close> key.
\<close>

definition rows_closed :: "(string, (string, real) dict) dict \<Rightarrow> bool" where
  "rows_closed tp = list_all (\<lambda>entry. dict_has (snd entry) UNKNOWN) tp"

definition tables_closed :: "LanguageModel \<Rightarrow> bool" where
  "tables_closed m =
     (dict_has (start_prob m) UNKNOWN \<and> dict_has (trans_prob m) UNKNOWN \<and>
      rows_closed (trans_prob m))"

subsection \<open>Notions used in the proofs about decoding\<close>


definition is_lang :: "string \<Rightarrow> bool" where
  "is_lang l = (l = GA \<or> l = EN)"

definition pointers :: "(string, string) dict \<Rightarrow> bool" where
  "pointers d = (\<exists>a b. d = [(GA, a), (EN, b)] \<and> is_lang a \<and> is_lang b)"



subsection \<open>Notions used in the proofs about training\<close>

text \<open>
  The transition table has an entry from \<open>g\<close> to \<open>g'\<close>; the token that \<^verbatim>\<open>train\<close>
  builds from a word of the lexicon.
\<close>

definition has_trans :: "(string, (string, real) dict) dict \<Rightarrow> string \<Rightarrow> string \<Rightarrow> bool" where
  "has_trans tp g g' = (case map_of tp g of None \<Rightarrow> False | Some row \<Rightarrow> dict_has row g')"

definition token_of :: "string \<Rightarrow> string" where
  "token_of w = START @ w @ END"

section \<open>Properties of the decoder's entry point\<close>

text \<open>
  Claim C8. A one-token input whose token is \<^verbatim>\<open>"sea"\<close> up to case is answered with
  the one-element list of the first language, in both copies of \<^verbatim>\<open>identify\<close>,
  whatever the identifier, the method and the probabilities are: no score is computed.
\<close>

theorem identify_sea_override:
  assumes "length tokens = 1" and "lower (tokens ! 0) = ''sea''"
  shows "identify fa self tokens method tp sp = Inr (Some [GA]) \<and>
         identify_FR fa self tokens method tp sp = Inr (Some [GA])"
  using assms by (simp add: identify_def identify_FR_def FR_def GA_def)

theorem identify_sea_override_witness:
  "identify exact_arith bare_identifier [''Sea''] ''viterbi'' (78 / 100) (3 / 4) =
     Inr (Some [GA]) \<and>
   identify_FR exact_arith bare_identifier [''Sea''] ''viterbi'' (78 / 100) (3 / 4) =
     Inr (Some [GA]) \<and>
   score exact_arith bare_identifier ''Sea'' = Inl KeyError"
proof -
  have len: "length [''Sea''] = 1" by simp
  have low: "lower ([''Sea''] ! 0) = ''sea''" by code_simp
  have sc: "score exact_arith bare_identifier ''Sea'' = Inl KeyError"
    by (simp add: score_def raw_scores_def IGNORE_def lex_score_def dict_item_def bind_err_def
        bare_identifier_def bare_model_def lang_item_def)
  show ?thesis
    using identify_sea_override [OF len low, of exact_arith bare_identifier "''viterbi''"
        "78 / 100" "3 / 4"] sc
    by simp
qed

text \<open>
  Claim C9. When the special case does not apply and the method is neither
  \<^verbatim>\<open>"independent"\<close> nor \<^verbatim>\<open>"viterbi"\<close>, \<^verbatim>\<open>identify\<close> returns \<^verbatim>\<open>None\<close>: no
  label sequence and no exception.
\<close>

theorem identify_other_method:
  assumes "method \<noteq> ''independent''" and "method \<noteq> ''viterbi''"
    and "\<not> (length tokens = 1 \<and> lower (tokens ! 0) = ''sea'')"
  shows "identify fa self tokens method tp sp = Inr None \<and>
         identify_FR fa self tokens method tp sp = Inr None"
  using assms by (simp add: identify_def identify_FR_def)

theorem identify_other_method_witness:
  "identify exact_arith bare_identifier [''ab'', ''xy''] ''greedy'' (78 / 100) (3 / 4) =
     Inr None \<and>
   identify_FR exact_arith bare_identifier [''ab'', ''xy''] ''greedy'' (78 / 100) (3 / 4) =
     Inr None"
proof -
  have m1: "''greedy'' \<noteq> ''independent''" by simp
  have m2: "''greedy'' \<noteq> ''viterbi''" by simp
  have t: "\<not> (length [''ab'', ''xy''] = 1 \<and> lower ([''ab'', ''xy''] ! 0) = ''sea'')" by simp
  show ?thesis
    using identify_other_method [OF m1 m2 t, of exact_arith bare_identifier "78 / 100" "3 / 4"]
    by simp
qed

text \<open>
  Claim C10. On the empty token sequence the independent mode returns the empty list,
  and the Viterbi mode raises \<^verbatim>\<open>IndexError\<close>, at \<^verbatim>\<open>tokens[0]\<close>.
\<close>

theorem identify_empty:
  "identify fa self [] ''independent'' tp sp = Inr (Some []) \<and>
   identify fa self [] ''viterbi'' tp sp = Inl IndexError \<and>
   list_item ([] :: string list) 0 = Inl IndexError"
  by (simp add: identify_def identify_viterbi_def list_item_def bind_err_def)

section \<open>Properties of the score\<close>

text \<open>
  Claim C5, as the source has it. On the ignore token \<^verbatim>\<open>score\<close> returns the number 1
  for each language: the two scores are equal, and they are 1, not \<open>ln 1 = 0\<close>.
\<close>

theorem score_ignore:
  "score fa self IGNORE = Inr (1, 1)"
  by (simp add: score_def)

text \<open>
  Claim C5 as stated: the two scores are not \<open>ln 1\<close>, whatever the models are.
\<close>

theorem score_ignore_not_log_one:
  "score exact_arith bare_identifier IGNORE \<noteq> Inr (ln 1, ln 1)"
  by (simp add: score_def)

section \<open>Properties of training\<close>

lemmas train_eval =
  count_file_def count_line_def count_transition_def dict_get_def dict_has_def dict_item_def
  START_def END_def UNKNOWN_def OOV_def bind_err_def py_log_def py_div_def log_ratio_def
  train_def train_start_def train_trans_def LanguageModel_init_def load_lexicon_def
  lex_count_line_def lex_key_def CASE_SENSITIVITY_THRESHOLD_def Let_def upt_rec List.insert_def
  word2ngrams_def slices_def char_score_lookups_def start_lookup_def trans_lookup_def
  lookup_kinds_def

text \<open>
  Claim C6, at the order 4 and the lexicon of the one line \<^verbatim>\<open>ab 1\<close>. \<^verbatim>\<open>train\<close>
  wraps the word in one start and one end symbol whatever the order is: the start
  n-gram it counts is \<^verbatim>\<open><ab>\<close>, and there is no transition. \<^verbatim>\<open>word2ngrams\<close>, which
  \<^verbatim>\<open>char_score\<close> uses, doubles the symbols from the order 4 on and starts the same
  word with \<^verbatim>\<open><<ab\<close>.
\<close>

theorem train_pads_once_at_order_4:
  "start_count (count_file (1 / 1000) 4 [(''ab'', 1)]) = [(''<ab>'', 1001 / 1000)] \<and>
   trans_count (count_file (1 / 1000) 4 [(''ab'', 1)]) = [] \<and>
   word2ngrams ''ab'' 4 = [''<<ab'', ''<ab>'', ''ab>>'']"
  by (simp add: train_eval)

text \<open>
  Claim C3, at the order 4 and the lexicon of the one line \<^verbatim>\<open>abc 1\<close>. The model is
  built and trained without error, and scoring the training word \<^verbatim>\<open>abc\<close> takes the
  unknown-start fallback for \<^verbatim>\<open><<ab\<close> and the unknown-source fallback for the
  transitions out of \<^verbatim>\<open><<ab\<close> and \<^verbatim>\<open>abc>\<close>; only the transition from \<^verbatim>\<open><abc\<close>
  to \<^verbatim>\<open>abc>\<close> is found in the tables.
\<close>

theorem train_order_4_hits_unknown:
  "bind_err (LanguageModel_init ''ga'' 4 [(''abc'', 1)] 1) (\<lambda>m.
   bind_err (train m (1 / 1000)) (\<lambda>m'. lookup_kinds m' ''abc'')) =
   Inr [UnknownStart, UnknownSource, Direct, UnknownSource]"
  by (simp add: train_eval)

lemma bind_err_Inr:
  "bind_err m f = Inr y \<longleftrightarrow> (\<exists>x. m = Inr x \<and> f x = Inr y)"
  by (cases m) (simp_all add: bind_err_def)

lemma bind_err_simps: "bind_err (Inr x) f = f x" "bind_err (Inl e) f = Inl e"
  by (simp_all add: bind_err_def)

lemma dict_has_update: "dict_has (AList.update k v d) k' = (k' = k \<or> dict_has d k')"
  by (auto simp add: dict_has_def update_conv')

lemma rows_closed_update:
  "rows_closed tp \<Longrightarrow> dict_has row UNKNOWN \<Longrightarrow> rows_closed (AList.update g row tp)"
  unfolding rows_closed_def by (induction tp) auto

lemma train_trans_closed:
  assumes "train_trans lamb tt tp entry = Inr tp'" and "rows_closed tp"
  shows "rows_closed tp' \<and> (dict_has tp UNKNOWN \<longrightarrow> dict_has tp' UNKNOWN)"
  using assms
  by (cases entry) (auto simp add: train_trans_def bind_err_Inr Let_def dict_has_update
      intro!: rows_closed_update)

lemma foldM_train_trans_closed:
  "foldM_err (train_trans lamb tt) tp entries = Inr tp' \<Longrightarrow> rows_closed tp \<Longrightarrow>
   dict_has tp UNKNOWN \<Longrightarrow> rows_closed tp' \<and> dict_has tp' UNKNOWN"
proof (induction entries arbitrary: tp)
  case Nil
  then show ?case by simp
next
  case (Cons e es)
  from Cons.prems(1) obtain tp1 where
    s: "train_trans lamb tt tp e = Inr tp1" and r: "foldM_err (train_trans lamb tt) tp1 es = Inr tp'"
    by (auto simp add: bind_err_Inr)
  from train_trans_closed [OF s Cons.prems(2)] Cons.prems(3)
  have "rows_closed tp1" and "dict_has tp1 UNKNOWN" by simp_all
  with Cons.IH [OF r] show ?case by simp
qed

lemma train_closed:
  assumes "train m lamb = Inr m'" and "trans_prob m = []"
  shows "tables_closed m' \<and> n m' = n m"
proof -
  from assms(1) obtain uu sp1 l tp2 where
    tp2: "foldM_err (train_trans lamb (trans_total (count_file lamb (n m) (lex_file m))))
            (AList.update UNKNOWN [(UNKNOWN, uu)] (trans_prob m))
            (trans_count (count_file lamb (n m) (lex_file m))) = Inr tp2"
    and m': "m' = m\<lparr>start_prob := AList.update UNKNOWN l sp1, trans_prob := tp2\<rparr>"
    by (auto simp add: train_def Let_def bind_err_Inr)
  have "rows_closed (AList.update UNKNOWN [(UNKNOWN, uu)] (trans_prob m))"
    by (simp add: assms(2) rows_closed_def dict_has_def)
  moreover have "dict_has (AList.update UNKNOWN [(UNKNOWN, uu)] (trans_prob m)) UNKNOWN"
    by (simp add: dict_has_update)
  ultimately have "rows_closed tp2 \<and> dict_has tp2 UNKNOWN"
    by (rule foldM_train_trans_closed [OF tp2])
  then show ?thesis
    by (simp add: m' tables_closed_def dict_has_update)
qed

lemma dict_item_has: "dict_has d k \<Longrightarrow> \<exists>v. dict_item d k = Inr v"
  by (auto simp add: dict_has_def dict_item_def)

lemma rows_closed_item:
  "rows_closed tp \<Longrightarrow> dict_item tp g = Inr row \<Longrightarrow> dict_has row UNKNOWN"
  by (auto simp add: rows_closed_def dict_item_def list_all_iff split: option.splits
      dest!: map_of_SomeD)

lemma start_lookup_closed:
  assumes "tables_closed m" shows "\<exists>r. start_lookup m g = Inr r"
proof (cases "dict_has (start_prob m) g")
  case True
  from dict_item_has [OF this] show ?thesis
    by (auto simp add: start_lookup_def True bind_err_def)
next
  case False
  from assms have "dict_has (start_prob m) UNKNOWN" by (simp add: tables_closed_def)
  from dict_item_has [OF this] show ?thesis
    by (auto simp add: start_lookup_def False bind_err_def)
qed

lemma trans_lookup_closed:
  assumes "tables_closed m" shows "\<exists>r. trans_lookup m gg = Inr r"
proof -
  obtain g g' where gg: "gg = (g, g')" by (cases gg)
  from assms have u: "dict_has (trans_prob m) UNKNOWN" and rc: "rows_closed (trans_prob m)"
    by (simp_all add: tables_closed_def)
  show ?thesis
  proof (cases "dict_has (trans_prob m) g")
    case False
    from dict_item_has [OF u] obtain row where row: "dict_item (trans_prob m) UNKNOWN = Inr row" ..
    from dict_item_has [OF rows_closed_item [OF rc row]] show ?thesis
      by (auto simp add: trans_lookup_def gg False row bind_err_def)
  next
    case True
    from dict_item_has [OF True] obtain row where row: "dict_item (trans_prob m) g = Inr row" ..
    show ?thesis
    proof (cases "dict_has row g'")
      case False
      from dict_item_has [OF rows_closed_item [OF rc row]] show ?thesis
        by (auto simp add: trans_lookup_def gg True row False bind_err_def)
    next
      case h: True
      from dict_item_has [OF h] show ?thesis
        by (auto simp add: trans_lookup_def gg True row h bind_err_def)
    qed
  qed
qed

lemma mapM_err_total:
  "(\<And>x. \<exists>y. f x = Inr y) \<Longrightarrow> \<exists>ys. mapM_err f xs = Inr ys"
proof (induction xs)
  case Nil
  show ?case by simp
next
  case (Cons x xs)
  from Cons.prems obtain y where "f x = Inr y" by blast
  moreover from Cons obtain ys where "mapM_err f xs = Inr ys" by blast
  ultimately show ?case by (simp add: bind_err_def)
qed

lemma char_score_lookups_closed:
  assumes "tables_closed m" and "word2ngrams word (n m) \<noteq> []"
  shows "\<exists>ls. char_score_lookups m word = Inr ls"
proof -
  from assms(2) obtain g0 gs where ng: "word2ngrams word (n m) = g0 # gs"
    by (cases "word2ngrams word (n m)") auto
  from start_lookup_closed [OF assms(1)] obtain s where s: "start_lookup m g0 = Inr s" by blast
  from mapM_err_total [of "trans_lookup m", OF trans_lookup_closed [OF assms(1)]]
  obtain ts where ts: "mapM_err (trans_lookup m) (zip (g0 # gs) gs) = Inr ts" by blast
  show ?thesis by (simp add: char_score_lookups_def ng s ts bind_err_def)
qed

text \<open>
  Claim C4. A model whose transition table was empty before \<^verbatim>\<open>train\<close>, as
  \<^verbatim>\<open>__init__\<close> leaves it, and on which \<^verbatim>\<open>train\<close> has returned, scores every word
  that has at least one n-gram: each lookup of \<^verbatim>\<open>char_score\<close> is served by a direct
  entry or by one of the three fallback entries, and no \<^verbatim>\<open>KeyError\<close> is raised.
\<close>

theorem char_score_no_missing_key:
  assumes "trans_prob m = []" and "train m lamb = Inr m'"
    and "word2ngrams word (n m) \<noteq> []"
  shows "\<exists>ls. char_score_lookups m' word = Inr ls \<and>
              char_score fa m' word = Inr (foldl (f_add fa) 0 (map snd ls))"
proof -
  from train_closed [OF assms(2) assms(1)] have c: "tables_closed m'" and k: "n m' = n m"
    by simp_all
  from char_score_lookups_closed [OF c] assms(3) k
  obtain ls where "char_score_lookups m' word = Inr ls" by auto
  then show ?thesis by (simp add: char_score_def bind_err_def)
qed


theorem char_score_no_missing_key_witness:
  "\<exists>m' ls. train toy_fresh_ga (1 / 1000) = Inr m' \<and>
     char_score_lookups m' ''zb'' = Inr ls \<and>
     char_score exact_arith m' ''zb'' = Inr (foldl (f_add exact_arith) 0 (map snd ls))"
proof -
  have t: "trans_prob toy_fresh_ga = []"
    by (simp add: toy_fresh_ga_def model_of_def train_eval)
  have "\<exists>m'. train toy_fresh_ga (1 / 1000) = Inr m'"
    by (simp add: toy_fresh_ga_def model_of_def train_eval)
  then obtain m' where tr: "train toy_fresh_ga (1 / 1000) = Inr m'" ..
  have w: "word2ngrams ''zb'' (n toy_fresh_ga) \<noteq> []"
    by (simp add: toy_fresh_ga_def model_of_def train_eval)
  from char_score_no_missing_key [OF t tr w, of exact_arith] tr show ?thesis by blast
qed

subsection \<open>The example models, evaluated\<close>

lemma toy_ga_eq:
  "toy_ga = \<lparr>language = ''ga'', n = 2, lex_file = [(''ab'', 10), (''ac'', 5)],
       lex_weight = 1, char_weight = 0,
       start_prob = [(''<a'', ln (15001 / 15002)), (''UNKNOWN'', ln (1 / 15002))],
       trans_prob =
         [(''UNKNOWN'', [(''UNKNOWN'', ln (1 / 6))]),
          (''<a'', [(''ab'', ln (10001 / 15003)), (''ac'', ln (1 / 3)),
                    (''UNKNOWN'', ln (1 / 15003))]),
          (''ab'', [(''b>'', ln (10001 / 10002)), (''UNKNOWN'', ln (1 / 10002))]),
          (''ac'', [(''c>'', ln (5001 / 5002)), (''UNKNOWN'', ln (1 / 5002))])],
       lex = [(''ab'', ln (101 / 153)), (''ac'', ln (1 / 3)), (''###'', ln (1 / 153))]\<rparr>"
  by (simp add: toy_ga_def toy_fresh_ga_def model_of_def train_eval)

lemma toy_en_eq:
  "toy_en = \<lparr>language = ''en'', n = 2, lex_file = [(''xy'', 10), (''xz'', 5)],
       lex_weight = 1, char_weight = 0,
       start_prob = [(''<x'', ln (15001 / 15002)), (''UNKNOWN'', ln (1 / 15002))],
       trans_prob =
         [(''UNKNOWN'', [(''UNKNOWN'', ln (1 / 6))]),
          (''<x'', [(''xy'', ln (10001 / 15003)), (''xz'', ln (1 / 3)),
                    (''UNKNOWN'', ln (1 / 15003))]),
          (''xy'', [(''y>'', ln (10001 / 10002)), (''UNKNOWN'', ln (1 / 10002))]),
          (''xz'', [(''z>'', ln (5001 / 5002)), (''UNKNOWN'', ln (1 / 5002))])],
       lex = [(''xy'', ln (101 / 153)), (''xz'', ln (1 / 3)), (''###'', ln (1 / 153))]\<rparr>"
  by (simp add: toy_en_def toy_fresh_en_def model_of_def train_eval)

subsection \<open>Training words below the order 4\<close>

lemma has_trans_update:
  "has_trans (AList.update g row tp) a b = (if a = g then dict_has row b else has_trans tp a b)"
  by (simp add: has_trans_def update_conv')

lemma count_transition_start [simp]:
  "start_count (count_transition lamb cnt k token i c) = start_count c"
  by (simp add: count_transition_def Let_def)

lemma count_transition_adds:
  "has_trans (trans_count (count_transition lamb cnt k token i c))
     (take k (drop i token)) (take k (drop (Suc i) token))"
  by (simp add: count_transition_def Let_def has_trans_update dict_has_update)

lemma count_transition_keeps:
  "has_trans (trans_count c) a b \<Longrightarrow>
   has_trans (trans_count (count_transition lamb cnt k token i c)) a b"
  by (auto simp add: count_transition_def Let_def has_trans_update dict_has_update
      has_trans_def dict_get_def dict_has_def update_conv' split: option.splits)

lemma count_transition_distinct:
  "distinct (map fst (trans_count c)) \<Longrightarrow>
   distinct (map fst (trans_count (count_transition lamb cnt k token i c)))"
  by (simp add: count_transition_def Let_def distinct_update)

lemma fold_count_transition_start [simp]:
  "start_count (fold (count_transition lamb cnt k token) is c) = start_count c"
  by (induction "is" arbitrary: c) simp_all

lemma fold_count_transition_keeps:
  "has_trans (trans_count c) a b \<Longrightarrow>
   has_trans (trans_count (fold (count_transition lamb cnt k token) is c)) a b"
  by (induction "is" arbitrary: c) (simp_all add: count_transition_keeps)

lemma fold_count_transition_adds:
  "i \<in> set is \<Longrightarrow>
   has_trans (trans_count (fold (count_transition lamb cnt k token) is c))
     (take k (drop i token)) (take k (drop (Suc i) token))"
proof (induction "is" arbitrary: c)
  case Nil
  then show ?case by simp
next
  case (Cons j js)
  show ?case
  proof (cases "i = j")
    case True
    then show ?thesis
      by (simp add: fold_count_transition_keeps count_transition_adds)
  next
    case False
    with Cons show ?thesis by simp
  qed
qed

lemma fold_count_transition_distinct:
  "distinct (map fst (trans_count c)) \<Longrightarrow>
   distinct (map fst (trans_count (fold (count_transition lamb cnt k token) is c)))"
  by (induction "is" arbitrary: c) (simp_all add: count_transition_distinct)

lemma count_line_keeps:
  "dict_has (start_count c) g \<Longrightarrow> dict_has (start_count (count_line lamb k line c)) g"
  "has_trans (trans_count c) a b \<Longrightarrow> has_trans (trans_count (count_line lamb k line c)) a b"
  "distinct (map fst (trans_count c)) \<Longrightarrow>
   distinct (map fst (trans_count (count_line lamb k line c)))"
  by (cases line; simp add: count_line_def Let_def dict_has_update fold_count_transition_keeps
      fold_count_transition_distinct)+

lemma count_line_token:
  "count_line lamb k (w, cnt) c =
     fold (count_transition lamb cnt k (token_of w)) [0 ..< length (token_of w) - k]
       (c\<lparr>token_total := token_total c + cnt,
          charset := fold List.insert (token_of w) (charset c),
          start_count :=
            AList.update (take k (token_of w))
              (dict_get (start_count c) (take k (token_of w)) lamb + real_of_int cnt)
              (start_count c)\<rparr>)"
  by (simp only: count_line_def Let_def token_of_def prod.case)

lemma count_line_adds:
  "dict_has (start_count (count_line lamb k (w, cnt) c)) (take k (token_of w))"
  "i < length (token_of w) - k \<Longrightarrow>
   has_trans (trans_count (count_line lamb k (w, cnt) c))
     (take k (drop i (token_of w))) (take k (drop (Suc i) (token_of w)))"
proof -
  show "dict_has (start_count (count_line lamb k (w, cnt) c)) (take k (token_of w))"
    unfolding count_line_token by (simp add: dict_has_update)
  assume "i < length (token_of w) - k"
  then have "i \<in> set [0 ..< length (token_of w) - k]" by simp
  then show "has_trans (trans_count (count_line lamb k (w, cnt) c))
     (take k (drop i (token_of w))) (take k (drop (Suc i) (token_of w)))"
    unfolding count_line_token by (rule fold_count_transition_adds)
qed

lemma fold_count_line_keeps:
  "dict_has (start_count c) g \<Longrightarrow> dict_has (start_count (fold (count_line lamb k) lexicon c)) g"
  "has_trans (trans_count c) a b \<Longrightarrow>
   has_trans (trans_count (fold (count_line lamb k) lexicon c)) a b"
  "distinct (map fst (trans_count c)) \<Longrightarrow>
   distinct (map fst (trans_count (fold (count_line lamb k) lexicon c)))"
  by (induction lexicon arbitrary: c; simp add: count_line_keeps)+

lemma fold_count_line_adds:
  assumes "(w, cnt) \<in> set lexicon"
  shows "dict_has (start_count (fold (count_line lamb k) lexicon c)) (take k (token_of w))"
    and "i < length (token_of w) - k \<Longrightarrow>
         has_trans (trans_count (fold (count_line lamb k) lexicon c))
           (take k (drop i (token_of w))) (take k (drop (Suc i) (token_of w)))"
  using assms
proof (induction lexicon arbitrary: c)
  case Nil
  { case 1 then show ?case by simp }
  { case 2 then show ?case by simp }
next
  case (Cons line lexicon)
  { case 1
    show ?case
    proof (cases "line = (w, cnt)")
      case True
      then show ?thesis by (simp add: fold_count_line_keeps count_line_adds)
    next
      case False
      with 1 Cons(1) show ?thesis by simp
    qed }
  { case 2
    show ?case
    proof (cases "line = (w, cnt)")
      case True
      with 2 show ?thesis by (simp add: fold_count_line_keeps count_line_adds)
    next
      case False
      with 2 Cons(2) show ?thesis by simp
    qed }
qed


lemma foldM_train_start_keys:
  "foldM_err (train_start d) sp entries = Inr sp' \<Longrightarrow>
   dict_has sp g \<or> g \<in> fst ` set entries \<Longrightarrow> dict_has sp' g"
proof (induction entries arbitrary: sp)
  case Nil
  then show ?case by simp
next
  case (Cons e es)
  from Cons.prems(1) obtain sp1 where
    s: "train_start d sp e = Inr sp1" and r: "foldM_err (train_start d) sp1 es = Inr sp'"
    by (auto simp add: bind_err_Inr)
  from s obtain l where sp1: "sp1 = AList.update (fst e) l sp"
    by (cases e) (auto simp add: train_start_def bind_err_Inr)
  from Cons.prems(2) have "dict_has sp1 g \<or> g \<in> fst ` set es"
    by (auto simp add: sp1 dict_has_update)
  with Cons.IH [OF r] show ?case by blast
qed

lemma train_trans_result:
  assumes "train_trans lamb tt tp (g, row) = Inr tp'"
  shows "\<exists>row'. tp' = AList.update g row' tp \<and> (\<forall>b. dict_has row b \<longrightarrow> dict_has row' b)"
proof -
  from assms obtain total_g new_row l where
    nr: "foldM_err (train_start (real_of_int total_g + lamb * (real (length row) + 1))) [] row =
           Inr new_row"
    and tp': "tp' = AList.update g (AList.update UNKNOWN l new_row) tp"
    by (auto simp add: train_trans_def bind_err_Inr Let_def)
  have "dict_has (AList.update UNKNOWN l new_row) b" if "dict_has row b" for b
  proof -
    from that have "b \<in> fst ` set row"
      by (auto simp add: dict_has_def dest!: map_of_SomeD intro: rev_image_eqI)
    with foldM_train_start_keys [OF nr, of b] show ?thesis by (simp add: dict_has_update)
  qed
  with tp' show ?thesis by blast
qed

lemma foldM_train_trans_other:
  "foldM_err (train_trans lamb tt) tp entries = Inr tp' \<Longrightarrow> g \<notin> fst ` set entries \<Longrightarrow>
   map_of tp' g = map_of tp g"
proof (induction entries arbitrary: tp)
  case Nil
  then show ?case by simp
next
  case (Cons e es)
  obtain g1 row1 where e: "e = (g1, row1)" by (cases e)
  from Cons.prems(1) obtain tp1 where
    s: "train_trans lamb tt tp (g1, row1) = Inr tp1"
    and r: "foldM_err (train_trans lamb tt) tp1 es = Inr tp'"
    by (auto simp add: bind_err_Inr e)
  from train_trans_result [OF s] obtain row' where "tp1 = AList.update g1 row' tp" by blast
  with Cons.prems(2) have "map_of tp1 g = map_of tp g" by (simp add: e update_conv')
  with Cons.IH [OF r] Cons.prems(2) show ?case by simp
qed

lemma foldM_train_trans_keys:
  "foldM_err (train_trans lamb tt) tp entries = Inr tp' \<Longrightarrow> distinct (map fst entries) \<Longrightarrow>
   has_trans entries a b \<Longrightarrow> has_trans tp' a b"
proof (induction entries arbitrary: tp)
  case Nil
  then show ?case by (simp add: has_trans_def)
next
  case (Cons e es)
  obtain g1 row1 where e: "e = (g1, row1)" by (cases e)
  from Cons.prems(1) obtain tp1 where
    s: "train_trans lamb tt tp (g1, row1) = Inr tp1"
    and r: "foldM_err (train_trans lamb tt) tp1 es = Inr tp'"
    by (auto simp add: bind_err_Inr e)
  from Cons.prems(2) have d: "distinct (map fst es)" and fresh: "g1 \<notin> fst ` set es"
    by (simp_all add: e)
  show ?case
  proof (cases "a = g1")
    case True
    with Cons.prems(3) have "dict_has row1 b" by (simp add: has_trans_def e)
    with train_trans_result [OF s] have "has_trans tp1 a b"
      by (auto simp add: has_trans_update True)
    with foldM_train_trans_other [OF r fresh] show ?thesis
      by (simp add: has_trans_def True)
  next
    case False
    with Cons.prems(3) have "has_trans es a b" by (simp add: has_trans_def e)
    from Cons.IH [OF r d this] show ?thesis .
  qed
qed

lemma train_direct_entries:
  assumes "train m lamb = Inr m'"
  shows "dict_has (start_count (count_file lamb (n m) (lex_file m))) g \<Longrightarrow>
         dict_has (start_prob m') g"
    and "has_trans (trans_count (count_file lamb (n m) (lex_file m))) a b \<Longrightarrow>
         has_trans (trans_prob m') a b"
    and "n m' = n m"
proof -
  let ?c = "count_file lamb (n m) (lex_file m)"
  from assms obtain uu d sp1 l tp2 where
    sp1: "foldM_err (train_start d) (start_prob m) (start_count ?c) = Inr sp1"
    and tp2: "foldM_err (train_trans lamb (trans_total ?c))
            (AList.update UNKNOWN [(UNKNOWN, uu)] (trans_prob m)) (trans_count ?c) = Inr tp2"
    and m': "m' = m\<lparr>start_prob := AList.update UNKNOWN l sp1, trans_prob := tp2\<rparr>"
    by (auto simp add: train_def Let_def bind_err_Inr)
  show "n m' = n m" by (simp add: m')
  have dist: "distinct (map fst (trans_count ?c))"
    unfolding count_file_def by (rule fold_count_line_keeps) simp
  show "dict_has (start_prob m') g" if "dict_has (start_count ?c) g"
  proof -
    from that have "g \<in> fst ` set (start_count ?c)"
      by (auto simp add: dict_has_def dest!: map_of_SomeD intro: rev_image_eqI)
    with foldM_train_start_keys [OF sp1, of g] show ?thesis by (simp add: m' dict_has_update)
  qed
  show "has_trans (trans_prob m') a b" if "has_trans (trans_count ?c) a b"
    using foldM_train_trans_keys [OF tp2 dist that] by (simp add: m')
qed


lemma start_lookup_direct:
  "dict_has (start_prob m) g \<Longrightarrow> \<exists>p. start_lookup m g = Inr (Direct, p)"
  by (auto simp add: start_lookup_def dict_has_def dict_item_def bind_err_def)

lemma trans_lookup_direct:
  "has_trans (trans_prob m) g g' \<Longrightarrow> \<exists>p. trans_lookup m (g, g') = Inr (Direct, p)"
  by (auto simp add: trans_lookup_def has_trans_def dict_has_def dict_item_def bind_err_def
      split: option.splits)

lemma mapM_err_direct:
  "(\<And>x. x \<in> set xs \<Longrightarrow> \<exists>p. f x = Inr (Direct, p)) \<Longrightarrow>
   \<exists>ys. mapM_err f xs = Inr ys \<and> map fst ys = replicate (length xs) Direct"
proof (induction xs)
  case Nil
  show ?case by simp
next
  case (Cons x xs)
  from Cons.prems [of x] obtain p where "f x = Inr (Direct, p)" by auto
  moreover from Cons.IH Cons.prems obtain ys where
    "mapM_err f xs = Inr ys" "map fst ys = replicate (length xs) Direct"
    by (meson list.set_intros(2))
  ultimately show ?case by (simp add: bind_err_def)
qed

lemma slices_Suc:
  "slices w k (Suc m) = take k w # map (\<lambda>i. take k (drop (Suc i) w)) [0 ..< m]"
  by (simp add: slices_def upt_conv_Cons map_Suc_upt [symmetric] del: upt_Suc)

lemma zip_slices:
  "zip (slices w k (Suc m)) (map (\<lambda>i. take k (drop (Suc i) w)) [0 ..< m]) =
   map (\<lambda>i. (take k (drop i w), take k (drop (Suc i) w))) [0 ..< m]"
  by (rule nth_equalityI) (simp_all add: slices_def nth_append del: upt_Suc)

lemma word2ngrams_below_4:
  "k < 4 \<Longrightarrow> word2ngrams w k = slices (token_of w) k (length (token_of w) + 1 - k)"
  by (simp add: word2ngrams_def token_of_def Let_def)

text \<open>
  Below the order 4 \<^verbatim>\<open>train\<close> and \<^verbatim>\<open>word2ngrams\<close> pad alike. Then, once
  \<^verbatim>\<open>train\<close> has returned, every lookup that \<^verbatim>\<open>char_score\<close> makes for a word of
  the lexicon is served by a direct entry, provided the padded word is at least as long
  as the order (always so for a non-empty word).
\<close>

lemma train_self_consistent_below_4:
  assumes tr: "train m lamb = Inr m'" and w: "(w, cnt) \<in> set (lex_file m)"
    and k: "n m < 4" and long: "n m \<le> length w + 2"
  shows "lookup_kinds m' w = Inr (replicate (length w + 3 - n m) Direct)"
proof -
  let ?k = "n m" and ?t = "token_of w"
  let ?c = "count_file lamb ?k (lex_file m)"
  define j where "j = length ?t - ?k"
  have len: "length ?t = length w + 2" by (simp add: token_of_def START_def END_def)
  with long have m: "length ?t + 1 - ?k = Suc j" by (simp add: j_def)
  have ng: "word2ngrams w (n m') =
            take ?k ?t # map (\<lambda>i. take ?k (drop (Suc i) ?t)) [0 ..< j]"
    by (simp only: train_direct_entries(3) [OF tr] word2ngrams_below_4 [OF k] m slices_Suc)
  have "dict_has (start_count ?c) (take ?k ?t)"
    unfolding count_file_def by (rule fold_count_line_adds(1) [OF w])
  from start_lookup_direct [OF train_direct_entries(1) [OF tr this]]
  obtain p where s: "start_lookup m' (take ?k ?t) = Inr (Direct, p)" by blast
  define ps where "ps = map (\<lambda>i. (take ?k (drop i ?t), take ?k (drop (Suc i) ?t))) [0 ..< j]"
  have direct: "\<exists>q. trans_lookup m' x = Inr (Direct, q)" if "x \<in> set ps" for x
  proof -
    from that obtain i where i: "i < j"
      and x: "x = (take ?k (drop i ?t), take ?k (drop (Suc i) ?t))" by (auto simp add: ps_def)
    from i have "has_trans (trans_count ?c) (take ?k (drop i ?t)) (take ?k (drop (Suc i) ?t))"
      unfolding count_file_def j_def by (rule fold_count_line_adds(2) [OF w])
    from trans_lookup_direct [OF train_direct_entries(2) [OF tr this]] show ?thesis
      by (simp add: x)
  qed
  have "\<exists>ys. mapM_err (trans_lookup m') ps = Inr ys \<and> map fst ys = replicate (length ps) Direct"
    by (rule mapM_err_direct) (rule direct)
  then obtain ts where
    ts: "mapM_err (trans_lookup m')
           (map (\<lambda>i. (take ?k (drop i ?t), take ?k (drop (Suc i) ?t))) [0 ..< j]) = Inr ts"
    and kinds: "map fst ts = replicate j Direct" by (auto simp add: ps_def)
  have z: "zip (take ?k ?t # map (\<lambda>i. take ?k (drop (Suc i) ?t)) [0 ..< j])
               (map (\<lambda>i. take ?k (drop (Suc i) ?t)) [0 ..< j]) =
           map (\<lambda>i. (take ?k (drop i ?t), take ?k (drop (Suc i) ?t))) [0 ..< j]"
    using zip_slices [of ?t ?k j] by (simp only: slices_Suc)
  have "char_score_lookups m' w = Inr ((Direct, p) # ts)"
    by (simp only: char_score_lookups_def ng list.case z s ts bind_err_simps)
  moreover have "length w + 3 - ?k = Suc j" using m len by simp
  ultimately show ?thesis
    by (simp add: lookup_kinds_def bind_err_def kinds)
qed

section \<open>Properties of decoding\<close>

lemma GA_neq_EN: "GA \<noteq> EN"
  by (simp add: GA_def EN_def)

lemma max_argmax_pair: "max_argmax [x, y] = Inr (if y > x then (Suc 0, y) else (0, x))"
  by (simp add: max_argmax_def)

lemma list_item_langs: "list_item langs 0 = Inr GA" "list_item langs (Suc 0) = Inr EN"
  by (simp_all add: list_item_def langs_def)

lemma viterbi_lang_unfold:
  "viterbi_lang fa V tp sc lang =
     bind_err (math_log fa (trans_p fa tp GA lang)) (\<lambda>a.
     bind_err (math_log fa (trans_p fa tp EN lang)) (\<lambda>b.
       Inr (if f_add fa (f_add fa (snd V) b) (lang_item sc lang) >
               f_add fa (f_add fa (fst V) a) (lang_item sc lang)
            then (f_add fa (f_add fa (snd V) b) (lang_item sc lang), EN)
            else (f_add fa (f_add fa (fst V) a) (lang_item sc lang), GA))))"
  by (cases "math_log fa (trans_p fa tp GA lang)"; cases "math_log fa (trans_p fa tp EN lang)")
     (simp_all add: viterbi_lang_def viterbi_term_def langs_def bind_err_def max_argmax_pair
        list_item_langs lang_item_def GA_neq_EN GA_neq_EN [symmetric]
        list_item_langs [unfolded langs_def])

lemma viterbi_lang_is_lang:
  "viterbi_lang fa V tp sc lang = Inr (p, l) \<Longrightarrow> is_lang l"
  by (auto simp add: viterbi_lang_unfold bind_err_Inr is_lang_def split: if_splits)

lemma viterbi_step_pointers:
  "viterbi_step fa self tp V tok = Inr r \<Longrightarrow> pointers (snd r)"
  by (auto simp add: viterbi_step_def bind_err_Inr pointers_def dest: viterbi_lang_is_lang)

lemma viterbi_forward_shape:
  "viterbi_forward fa self tp V S toks = Inr r \<Longrightarrow>
   \<exists>V' S'. r = (V @ V', S @ S') \<and> length V' = length toks \<and> length S' = length toks \<and>
           list_all pointers S'"
proof (induction toks arbitrary: V S)
  case Nil
  then show ?case by simp
next
  case (Cons tok toks)
  from Cons.prems obtain q where
    q: "viterbi_step fa self tp (last V) tok = Inr q"
    and rest: "viterbi_forward fa self tp (V @ [fst q]) (S @ [snd q]) toks = Inr r"
    by (auto simp add: bind_err_Inr)
  from Cons.IH [OF rest] obtain V' S' where
    "r = ((V @ [fst q]) @ V', (S @ [snd q]) @ S')" "length V' = length toks"
    "length S' = length toks" "list_all pointers S'" by blast
  with viterbi_step_pointers [OF q] show ?case
    by (intro exI [of _ "fst q # V'"] exI [of _ "snd q # S'"]) simp
qed

lemma pointers_item:
  "pointers d \<Longrightarrow> is_lang l \<Longrightarrow> \<exists>l'. dict_item d l = Inr l' \<and> is_lang l'"
  by (auto simp add: pointers_def is_lang_def dict_item_def)

lemma backtrack_total:
  "t < length S \<Longrightarrow> list_all pointers (tl S) \<Longrightarrow> is_lang l \<Longrightarrow>
   \<exists>ls. backtrack S t l = Inr ls \<and> length ls = Suc t \<and> list_all is_lang ls"
proof (induction t arbitrary: l)
  case 0
  then show ?case by simp
next
  case (Suc t)
  from Suc.prems(1) have "S ! Suc t \<in> set (tl S)"
    by (cases S) (auto simp add: nth_mem)
  with Suc.prems(2) have p: "pointers (S ! Suc t)" by (simp add: list_all_iff)
  from pointers_item [OF p Suc.prems(3)] obtain l' where
    l': "dict_item (S ! Suc t) l = Inr l'" "is_lang l'" by blast
  from Suc.prems(1) have "t < length S" by simp
  from Suc.IH [OF this Suc.prems(2) l'(2)] obtain ls where
    "backtrack S t l' = Inr ls" "length ls = Suc t" "list_all is_lang ls" by blast
  with Suc.prems l' show ?case by (simp add: list_item_def bind_err_def)
qed

lemma identify_viterbi_shape:
  assumes "identify_viterbi fa self tokens tp sp = Inr ls"
  shows "length ls = length tokens \<and> list_all is_lang ls"
proof -
  from assms obtain tok0 sc a b VS r l where
    t0: "list_item tokens 0 = Inr tok0"
    and fw: "viterbi_forward fa self tp
               [(f_add fa a (lang_item sc GA), f_add fa b (lang_item sc EN))] [[]]
               (drop 1 tokens) = Inr VS"
    and mx: "max_argmax (map (lang_item (last (fst VS))) langs) = Inr r"
    and l: "list_item langs (fst r) = Inr l"
    and bt: "backtrack (snd VS) (length tokens - 1) l = Inr ls"
    unfolding identify_viterbi_def bind_err_Inr by blast
  from t0 have ne: "tokens \<noteq> []" by (auto simp add: list_item_def)
  from viterbi_forward_shape [OF fw] obtain V' S' where
    VS: "VS = ([(f_add fa a (lang_item sc GA), f_add fa b (lang_item sc EN))] @ V', [[]] @ S')"
    and len: "length S' = length (drop 1 tokens)" and ptr: "list_all pointers S'" by blast
  from l have il: "is_lang l"
    by (auto simp add: list_item_def langs_def is_lang_def nth_Cons split: if_splits nat.splits)
  have "length tokens - 1 < length (snd VS)" using ne len by (simp add: VS)
  from backtrack_total [OF this _ il] ptr bt ne show ?thesis by (simp add: VS)
qed

lemma identify_independent_shape:
  "identify_independent fa self tokens = Inr ls \<Longrightarrow>
   length ls = length tokens \<and> list_all is_lang ls"
  by (induction tokens arbitrary: ls) (auto simp add: bind_err_Inr is_lang_def)

lemma identify_independent_total:
  "(\<And>tok. tok \<in> set tokens \<Longrightarrow> \<exists>sc. score fa self tok = Inr sc) \<Longrightarrow>
   \<exists>ls. identify_independent fa self tokens = Inr ls"
proof (induction tokens)
  case Nil
  then show ?case by simp
next
  case (Cons tok tokens)
  from Cons.prems [of tok] obtain sc where "score fa self tok = Inr sc" by auto
  moreover from Cons.IH Cons.prems obtain ls where "identify_independent fa self tokens = Inr ls"
    by (meson list.set_intros(2))
  ultimately show ?case by (simp add: bind_err_def)
qed

lemma viterbi_lang_total:
  "0 < tp \<Longrightarrow> 0 < f_sub fa 1 tp \<Longrightarrow> \<exists>r. viterbi_lang fa V tp sc lang = Inr r"
  by (simp add: viterbi_lang_unfold math_log_def trans_p_def bind_err_def)

lemma viterbi_step_total:
  assumes "0 < tp" and "0 < f_sub fa 1 tp" and "score fa self tok = Inr sc"
  shows "\<exists>r. viterbi_step fa self tp V tok = Inr r"
proof -
  from viterbi_lang_total [OF assms(1,2)] obtain rg where
    "viterbi_lang fa V tp sc GA = Inr rg" by blast
  moreover from viterbi_lang_total [OF assms(1,2)] obtain re where
    "viterbi_lang fa V tp sc EN = Inr re" by blast
  ultimately show ?thesis by (simp add: viterbi_step_def assms(3) bind_err_def)
qed

lemma viterbi_forward_total:
  "0 < tp \<Longrightarrow> 0 < f_sub fa 1 tp \<Longrightarrow>
   (\<And>tok. tok \<in> set toks \<Longrightarrow> \<exists>sc. score fa self tok = Inr sc) \<Longrightarrow>
   \<exists>r. viterbi_forward fa self tp V S toks = Inr r"
proof (induction toks arbitrary: V S)
  case Nil
  then show ?case by simp
next
  case (Cons tok toks)
  from Cons.prems(3) [of tok] obtain sc where "score fa self tok = Inr sc" by auto
  from viterbi_step_total [OF Cons.prems(1,2) this] obtain q where
    q: "viterbi_step fa self tp (last V) tok = Inr q" by blast
  from Cons.IH [OF Cons.prems(1,2)] Cons.prems(3)
  obtain r where "viterbi_forward fa self tp (V @ [fst q]) (S @ [snd q]) toks = Inr r"
    by (meson list.set_intros(2))
  with q show ?case by (simp add: bind_err_def)
qed

lemma max_argmax_langs_total: "\<exists>r. max_argmax (map (lang_item v) langs) = Inr r"
  by (simp add: langs_def max_argmax_pair)

lemma identify_viterbi_total:
  assumes "tokens \<noteq> []" and "0 < tp" and "0 < f_sub fa 1 tp" and "0 < sp" and "0 < f_sub fa 1 sp"
    and sc: "\<And>tok. tok \<in> set tokens \<Longrightarrow> \<exists>sc. score fa self tok = Inr sc"
  shows "\<exists>ls. identify_viterbi fa self tokens tp sp = Inr ls"
proof -
  from assms(1) obtain tok0 rest where tokens: "tokens = tok0 # rest" by (cases tokens) auto
  from sc [of tok0] obtain sc0 where sc0: "score fa self tok0 = Inr sc0"
    by (auto simp add: tokens)
  define V0 where "V0 = (f_add fa (f_log fa sp) (lang_item sc0 GA),
                         f_add fa (f_log fa (f_sub fa 1 sp)) (lang_item sc0 EN))"
  from viterbi_forward_total [OF assms(2,3), of rest self "[V0]" "[[]]"] sc
  obtain VS where fw: "viterbi_forward fa self tp [V0] [[]] rest = Inr VS"
    by (auto simp add: tokens)
  from viterbi_forward_shape [OF fw] obtain V' S' where
    VS: "VS = ([V0] @ V', [[]] @ S')"
    and len: "length S' = length rest" and ptr: "list_all pointers S'" by blast
  obtain r where mx: "max_argmax (map (lang_item (last (fst VS))) langs) = Inr r"
    using max_argmax_langs_total by blast
  then have "fst r = 0 \<or> fst r = Suc 0"
    by (auto simp add: langs_def max_argmax_pair split: if_splits)
  then obtain l where l: "list_item langs (fst r) = Inr l" and il: "is_lang l"
    by (auto simp add: list_item_langs is_lang_def)
  have "length rest < length (snd VS)" using len by (simp add: VS)
  from backtrack_total [OF this _ il] ptr obtain ls where
    bt: "backtrack (snd VS) (length rest) l = Inr ls" by (auto simp add: VS)
  have "identify_viterbi fa self tokens tp sp =
          bind_err (viterbi_forward fa self tp [V0] [[]] rest) (\<lambda>VS.
          bind_err (max_argmax (map (lang_item (last (fst VS))) langs)) (\<lambda>r.
          bind_err (list_item langs (fst r)) (\<lambda>l.
          backtrack (snd VS) (length rest) l)))"
    using assms(4,5)
    by (simp add: identify_viterbi_def tokens list_item_def sc0 math_log_def bind_err_def V0_def)
  then show ?thesis by (simp only: fw mx l bt bind_err_simps) blast
qed

text \<open>
  Claim C1, as the source has it. For a non-empty token sequence and either method:
  whatever \<^verbatim>\<open>identify\<close> returns is a list of labels, as long as the token sequence,
  each label one of the two language codes; and \<^verbatim>\<open>identify\<close> does return when
  \<^verbatim>\<open>score\<close> returns on every token and the two probabilities and their complements
  are positive, so that their logarithms exist.
\<close>

theorem identify_labels:
  assumes "tokens \<noteq> []" and "method = ''independent'' \<or> method = ''viterbi''"
  shows "(\<forall>r. identify fa self tokens method tp sp = Inr r \<longrightarrow>
            (\<exists>ls. r = Some ls \<and> length ls = length tokens \<and> set ls \<subseteq> {GA, EN})) \<and>
         ((\<forall>tok \<in> set tokens. \<exists>sc. score fa self tok = Inr sc) \<and>
            0 < tp \<and> 0 < f_sub fa 1 tp \<and> 0 < sp \<and> 0 < f_sub fa 1 sp \<longrightarrow>
            (\<exists>ls. identify fa self tokens method tp sp = Inr (Some ls)))"
proof (intro conjI allI impI)
  fix r assume r: "identify fa self tokens method tp sp = Inr r"
  have il: "list_all is_lang ls \<Longrightarrow> set ls \<subseteq> {GA, EN}" for ls
    by (auto simp add: list_all_iff is_lang_def)
  show "\<exists>ls. r = Some ls \<and> length ls = length tokens \<and> set ls \<subseteq> {GA, EN}"
  proof (cases "length tokens = 1 \<and> lower (tokens ! 0) = ''sea''")
    case True
    with r show ?thesis by (auto simp add: identify_def)
  next
    case False
    from assms(2) show ?thesis
    proof
      assume m: "method = ''independent''"
      with r False obtain ls where "identify_independent fa self tokens = Inr ls" "r = Some ls"
        by (auto simp add: identify_def bind_err_Inr)
      with identify_independent_shape [of fa self tokens ls] il show ?thesis by simp
    next
      assume m: "method = ''viterbi''"
      with r False obtain ls where "identify_viterbi fa self tokens tp sp = Inr ls" "r = Some ls"
        by (auto simp add: identify_def bind_err_Inr)
      with identify_viterbi_shape [of fa self tokens tp sp ls] il show ?thesis by simp
    qed
  qed
next
  assume h: "(\<forall>tok \<in> set tokens. \<exists>sc. score fa self tok = Inr sc) \<and>
            0 < tp \<and> 0 < f_sub fa 1 tp \<and> 0 < sp \<and> 0 < f_sub fa 1 sp"
  then have sc: "\<And>tok. tok \<in> set tokens \<Longrightarrow> \<exists>sc. score fa self tok = Inr sc" by blast
  from identify_independent_total [OF sc] obtain li where
    li: "identify_independent fa self tokens = Inr li" by blast
  from identify_viterbi_total [OF assms(1) _ _ _ _ sc] h obtain lv where
    lv: "identify_viterbi fa self tokens tp sp = Inr lv" by blast
  from assms(2) li lv show "\<exists>ls. identify fa self tokens method tp sp = Inr (Some ls)"
    by (auto simp add: identify_def bind_err_def)
qed

text \<open>The example inputs are evaluated in the arithmetic that does not round.\<close>

lemmas arith_eval =
  exact_arith_def math_exp_def math_log_def float_div_def

lemmas score_eval =
  score_def raw_scores_def weighted_score_def relative_def only_char_def combined_def mixed_def
  lang_item_def GA_def EN_def IGNORE_def lex_score_def char_score_def

lemma exp_sum_nonzero: "exp (x::real) + exp y \<noteq> 0"
  using exp_gt_zero [of x] exp_gt_zero [of y] by linarith

lemma score_toy_ab:
  "score exact_arith toy_identifier ''ab'' = Inr (ln (101 / 102), ln (1 / 102))"
  by (simp add: toy_identifier_def toy_ga_eq toy_en_eq score_eval arith_eval train_eval
      exp_sum_nonzero)

lemma score_toy_xy:
  "score exact_arith toy_identifier ''xy'' = Inr (ln (1 / 102), ln (101 / 102))"
  by (simp add: toy_identifier_def toy_ga_eq toy_en_eq score_eval arith_eval train_eval
      exp_sum_nonzero)

theorem identify_labels_witness:
  "\<exists>lv li. identify exact_arith toy_identifier [''ab'', ''xy''] ''viterbi'' (78 / 100) (3 / 4) =
       Inr (Some lv) \<and>
     length lv = 2 \<and> set lv \<subseteq> {GA, EN} \<and>
     identify exact_arith toy_identifier [''ab'', ''xy''] ''independent'' (78 / 100) (3 / 4) =
       Inr (Some li) \<and>
     length li = 2 \<and> set li \<subseteq> {GA, EN}"
proof -
  have ne: "[''ab'', ''xy''] \<noteq> []" by simp
  have sc: "\<forall>tok \<in> set [''ab'', ''xy'']. \<exists>sc. score exact_arith toy_identifier tok = Inr sc"
    by (simp add: score_toy_ab score_toy_xy)
  have pr: "(0::real) < 78 / 100 \<and> 0 < f_sub exact_arith 1 (78 / 100) \<and>
            (0::real) < 3 / 4 \<and> 0 < f_sub exact_arith 1 (3 / 4)"
    by (simp add: exact_arith_def)
  note v = identify_labels [OF ne disjI2 [OF refl], of exact_arith toy_identifier "78 / 100" "3 / 4"]
  note i = identify_labels [OF ne disjI1 [OF refl], of exact_arith toy_identifier "78 / 100" "3 / 4"]
  from v sc pr obtain lv where
    lv: "identify exact_arith toy_identifier [''ab'', ''xy''] ''viterbi'' (78 / 100) (3 / 4) =
           Inr (Some lv)"
    by blast
  from v lv have sv: "length lv = length [''ab'', ''xy''] \<and> set lv \<subseteq> {GA, EN}" by blast
  from i sc pr obtain li where
    li: "identify exact_arith toy_identifier [''ab'', ''xy''] ''independent'' (78 / 100) (3 / 4) =
           Inr (Some li)"
    by blast
  from i li have si: "length li = length [''ab'', ''xy''] \<and> set li \<subseteq> {GA, EN}" by blast
  from lv sv li si show ?thesis by simp
qed

lemma not_sea_ab: "\<not> (length [''ab'', ''xy''] = 1 \<and> lower ([''ab'', ''xy''] ! 0) = ''sea'')"
  by simp

text \<open>
  Claim C1 as stated does not hold: with the transition probability 1 the Viterbi mode
  raises \<^verbatim>\<open>ValueError\<close> at the second token, where it takes the logarithm of
  \<^verbatim>\<open>1 - 1\<close>.
\<close>

theorem identify_certain_transition_raises:
  "identify exact_arith toy_identifier [''ab'', ''xy''] ''viterbi'' 1 (3 / 4) = Inl ValueError"
proof -
  have "viterbi_lang exact_arith V 1 sc GA = Inl ValueError" for V sc
    by (simp add: viterbi_lang_unfold trans_p_def arith_eval bind_err_def GA_neq_EN [symmetric])
  then have "viterbi_step exact_arith toy_identifier 1 V ''xy'' = Inl ValueError" for V
    by (simp add: viterbi_step_def score_toy_xy bind_err_def)
  moreover have "math_log exact_arith (3 / 4) = Inr (ln (3 / 4))"
    and "math_log exact_arith (f_sub exact_arith 1 (3 / 4)) = Inr (ln (1 / 4))"
    by (simp_all add: arith_eval)
  ultimately
  have "identify_viterbi exact_arith toy_identifier [''ab'', ''xy''] 1 (3 / 4) = Inl ValueError"
    by (simp add: identify_viterbi_def list_item_def score_toy_ab bind_err_def)
  with not_sea_ab show ?thesis
    by (simp only: identify_def bind_err_simps if_False) simp
qed

section \<open>The score of a word outside both lexicons\<close>

lemma score_out_of_lexicon_cases:
  assumes "word \<noteq> IGNORE"
    and "raw_scores fa (fst (model self)) word = Inr (xg, yg)"
    and "raw_scores fa (snd (model self)) word = Inr (xe, ye)"
    and "lex_score (fst (model self)) OOV = Inr og" and "math_exp fa og = Inr xg"
    and "lex_score (snd (model self)) OOV = Inr oe" and "math_exp fa oe = Inr xe"
  shows "score fa self word =
         (if f_add fa xg xe = 0 \<or> f_add fa yg ye = 0 then Inl ZeroDivisionError
          else only_char fa (f_div fa yg (f_add fa yg ye), f_div fa ye (f_add fa yg ye)))"
  using assms
  by (simp add: score_def weighted_score_def relative_def float_div_def bind_err_def
      lang_item_def GA_neq_EN [symmetric])

text \<open>
  Claim C7, as the source has it. The word is not the ignore token, which
  \<^verbatim>\<open>score\<close> answers before it computes anything; \<open>(xg, yg)\<close> and \<open>(xe, ye)\<close>
  are its raw lexicon and character scores in the two models, and the raw lexicon
  scores are those of the out-of-lexicon entry. Then whatever \<^verbatim>\<open>score\<close> returns is
  the pair of the logarithms of the relative character scores, in which neither the
  lexicon scores nor the lexicon weight occur; and \<^verbatim>\<open>score\<close> does return when the
  two sums of raw scores are not zero and the relative character scores are positive.
\<close>

theorem score_out_of_lexicon:
  assumes "word \<noteq> IGNORE"
    and "raw_scores fa (fst (model self)) word = Inr (xg, yg)"
    and "raw_scores fa (snd (model self)) word = Inr (xe, ye)"
    and "lex_score (fst (model self)) OOV = Inr og" and "math_exp fa og = Inr xg"
    and "lex_score (snd (model self)) OOV = Inr oe" and "math_exp fa oe = Inr xe"
  shows "(\<forall>r. score fa self word = Inr r \<longrightarrow>
            r = (f_log fa (f_div fa yg (f_add fa yg ye)),
                 f_log fa (f_div fa ye (f_add fa yg ye)))) \<and>
         (f_add fa xg xe \<noteq> 0 \<and> f_add fa yg ye \<noteq> 0 \<and>
          0 < f_div fa yg (f_add fa yg ye) \<and> 0 < f_div fa ye (f_add fa yg ye) \<longrightarrow>
            score fa self word =
              Inr (f_log fa (f_div fa yg (f_add fa yg ye)),
                   f_log fa (f_div fa ye (f_add fa yg ye))))"
  unfolding score_out_of_lexicon_cases [OF assms]
  by (auto simp add: only_char_def math_log_def bind_err_def lang_item_def
      GA_neq_EN [symmetric] split: if_splits)

lemma raw_scores_toy_zz:
  "raw_scores exact_arith toy_ga ''zz'' = Inr (1 / 153, exp (2 * ln (1 / 6) + ln (1 / 15002)))"
  "raw_scores exact_arith toy_en ''zz'' = Inr (1 / 153, exp (2 * ln (1 / 6) + ln (1 / 15002)))"
  by (simp_all add: toy_ga_eq toy_en_eq raw_scores_def lex_score_def char_score_def train_eval
      arith_eval)

lemma raw_oov_toy:
  "lex_score toy_ga OOV = Inr (ln (1 / 153))" "lex_score toy_en OOV = Inr (ln (1 / 153))"
  "math_exp exact_arith (ln (1 / 153)) = Inr (1 / 153)"
  by (simp_all add: toy_ga_eq toy_en_eq lex_score_def train_eval arith_eval)

theorem score_out_of_lexicon_witness:
  "score exact_arith toy_identifier ''zz'' = Inr (ln (1 / 2), ln (1 / 2))"
proof -
  define y :: real where "y = exp (2 * ln (1 / 6) + ln (1 / 15002))"
  have y: "0 < y" by (simp add: y_def)
  have w: "''zz'' \<noteq> IGNORE" by (simp add: IGNORE_def)
  have m: "fst (model toy_identifier) = toy_ga" "snd (model toy_identifier) = toy_en"
    by (simp_all add: toy_identifier_def)
  note th = score_out_of_lexicon [of "''zz''" exact_arith toy_identifier "1 / 153" y "1 / 153" y,
      unfolded m, OF w raw_scores_toy_zz [folded y_def] raw_oov_toy(1) raw_oov_toy(3)
        raw_oov_toy(2) raw_oov_toy(3)]
  have "f_add exact_arith (1 / 153) (1 / 153) \<noteq> 0 \<and> f_add exact_arith y y \<noteq> 0 \<and>
        0 < f_div exact_arith y (f_add exact_arith y y) \<and>
        0 < f_div exact_arith y (f_add exact_arith y y)"
    using y by (simp add: exact_arith_def)
  with th have "score exact_arith toy_identifier ''zz'' =
      Inr (f_log exact_arith (f_div exact_arith y (f_add exact_arith y y)),
           f_log exact_arith (f_div exact_arith y (f_add exact_arith y y)))"
    by blast
  moreover have "f_div exact_arith y (f_add exact_arith y y) = 1 / 2"
    using y by (simp add: exact_arith_def)
  ultimately show ?thesis by (simp add: exact_arith_def)
qed

lemma mapM_err_const:
  "(\<And>x. x \<in> set xs \<Longrightarrow> f x = Inr c) \<Longrightarrow> mapM_err f xs = Inr (replicate (length xs) c)"
  by (induction xs) (simp_all add: bind_err_def)

lemma foldl_add_replicate: "foldl (+) s (replicate k b) = s + real k * (b::real)"
  by (induction k arbitrary: s) (simp_all add: algebra_simps)

lemma take_2_drop:
  "Suc i < length t \<Longrightarrow> take 2 (drop i t) = [t ! i, t ! Suc i]"
proof -
  assume h: "Suc i < length t"
  then have "drop i t = t ! i # drop (Suc i) t" by (simp add: Cons_nth_drop_Suc)
  moreover from h have "drop (Suc i) t = t ! Suc i # drop (Suc (Suc i)) t"
    by (simp add: Cons_nth_drop_Suc)
  ultimately show ?thesis by (simp add: numeral_2_eq_2)
qed

lemma ln_6_bound: "3 / 2 < ln (6::real)"
proof -
  have "exp (1 / 2 :: real) \<le> 1 + 1 / 2 + (1 / 2)\<^sup>2"
    by (rule exp_bound) simp_all
  then have h: "exp (1 / 2 :: real) \<le> 7 / 4" by (simp add: power2_eq_square)
  have "exp (3 / 2 :: real) = exp (1 / 2) ^ 3"
    using exp_of_nat_mult [of 3 "1 / 2 :: real"] by simp
  also have "\<dots> \<le> (7 / 4) ^ 3" using h by (intro power_mono) simp_all
  also have "\<dots> < 6" by (simp add: power3_eq_cube)
  finally have "exp (3 / 2 :: real) < exp (ln 6)" by simp
  then show ?thesis by (simp only: exp_less_cancel_iff)
qed


lemma char_score_lookups_unknown:
  assumes n: "n m = 2" and k: "0 < k"
    and st: "\<And>c. \<not> dict_has (start_prob m) [c, CHR ''q'']"
    and tr: "\<And>c. \<not> dict_has (trans_prob m) [c, CHR ''q'']"
    and a: "dict_item (start_prob m) UNKNOWN = Inr a"
    and row: "dict_item (trans_prob m) UNKNOWN = Inr row"
    and b: "dict_item row UNKNOWN = Inr b"
  shows "char_score_lookups m (replicate k (CHR ''q'')) =
         Inr ((UnknownStart, a) # replicate k (UnknownSource, b))"
proof -
  define t where "t = token_of (replicate k (CHR ''q''))"
  have len: "length t = k + 2" by (simp add: t_def token_of_def START_def END_def)
  have q: "t ! Suc i = CHR ''q''" if "i < k" for i
    using that by (simp add: t_def token_of_def START_def END_def nth_append)
  have g: "take 2 (drop i t) = [t ! i, CHR ''q'']" if "i < k" for i
    using take_2_drop [of i t] q [OF that] that len by simp
  have "word2ngrams (replicate k (CHR ''q'')) (n m) = slices t 2 (Suc k)"
    by (simp add: n word2ngrams_below_4 t_def [symmetric] len)
  then have ng: "word2ngrams (replicate k (CHR ''q'')) (n m) =
                 take 2 t # map (\<lambda>i. take 2 (drop (Suc i) t)) [0 ..< k]"
    by (simp only: slices_Suc)
  have s: "start_lookup m (take 2 t) = Inr (UnknownStart, a)"
    using g [of 0] k st by (simp add: start_lookup_def a bind_err_def)
  have "trans_lookup m x = Inr (UnknownSource, b)"
    if "x \<in> set (map (\<lambda>i. (take 2 (drop i t), take 2 (drop (Suc i) t))) [0 ..< k])" for x
  proof -
    from that obtain i where "i < k" and "x = (take 2 (drop i t), take 2 (drop (Suc i) t))"
      by auto
    with g [of i] tr show ?thesis by (simp add: trans_lookup_def row b bind_err_def)
  qed
  then have ts: "mapM_err (trans_lookup m)
        (map (\<lambda>i. (take 2 (drop i t), take 2 (drop (Suc i) t))) [0 ..< k]) =
      Inr (replicate k (UnknownSource, b))"
    using mapM_err_const [of "map (\<lambda>i. (take 2 (drop i t), take 2 (drop (Suc i) t))) [0 ..< k]"
        "trans_lookup m" "(UnknownSource, b)"] by simp
  have z: "zip (take 2 t # map (\<lambda>i. take 2 (drop (Suc i) t)) [0 ..< k])
               (map (\<lambda>i. take 2 (drop (Suc i) t)) [0 ..< k]) =
           map (\<lambda>i. (take 2 (drop i t), take 2 (drop (Suc i) t))) [0 ..< k]"
    using zip_slices [of t 2 k] by (simp only: slices_Suc)
  show ?thesis
    by (simp only: char_score_lookups_def ng list.case z s ts bind_err_simps)
qed

lemma char_score_long_token:
  "char_score underflow_arith toy_ga long_token = Inr (ln (1 / 15002) + 500 * ln (1 / 6))"
  "char_score underflow_arith toy_en long_token = Inr (ln (1 / 15002) + 500 * ln (1 / 6))"
proof -
  have "char_score_lookups toy_ga long_token =
        Inr ((UnknownStart, ln (1 / 15002)) # replicate 500 (UnknownSource, ln (1 / 6)))"
    unfolding long_token_def
    by (rule char_score_lookups_unknown [where row = "[(UNKNOWN, ln (1 / 6))]"])
       (simp_all add: toy_ga_eq dict_has_def dict_item_def UNKNOWN_def)
  then show "char_score underflow_arith toy_ga long_token =
             Inr (ln (1 / 15002) + 500 * ln (1 / 6))"
    by (simp add: char_score_def bind_err_def underflow_arith_def exact_arith_def
        foldl_add_replicate)
  have "char_score_lookups toy_en long_token =
        Inr ((UnknownStart, ln (1 / 15002)) # replicate 500 (UnknownSource, ln (1 / 6)))"
    unfolding long_token_def
    by (rule char_score_lookups_unknown [where row = "[(UNKNOWN, ln (1 / 6))]"])
       (simp_all add: toy_en_eq dict_has_def dict_item_def UNKNOWN_def)
  then show "char_score underflow_arith toy_en long_token =
             Inr (ln (1 / 15002) + 500 * ln (1 / 6))"
    by (simp add: char_score_def bind_err_def underflow_arith_def exact_arith_def
        foldl_add_replicate)
qed

lemma long_token_underflows:
  "math_exp underflow_arith (ln (1 / 15002) + 500 * ln (1 / 6)) = Inr 0"
proof -
  have "ln (1 / 6 :: real) = - ln 6" by (simp add: ln_div)
  moreover have "ln (1 / 15002 :: real) < 0" by simp
  ultimately have "ln (1 / 15002) + 500 * ln (1 / 6 :: real) < - 746"
    using ln_6_bound by linarith
  then show ?thesis
    by (simp add: math_exp_def underflow_arith_def underflow_exp_def)
qed

lemma lexicon_raw_in_range:
  "math_exp underflow_arith (ln (1 / 153)) = Inr (1 / 153)"
proof -
  have "ln (153 :: real) \<le> 153 - 1" by (rule ln_le_minus_one) simp
  moreover have "ln (1 / 153 :: real) = - ln 153" by (simp add: ln_div)
  moreover have "0 < ln (153 :: real)" by simp
  ultimately have "\<not> ln (1 / 153 :: real) < - 746" and "\<not> 710 < ln (1 / 153 :: real)"
    by linarith+
  then show ?thesis
    by (simp add: math_exp_def underflow_arith_def underflow_exp_def)
qed

lemma lex_score_long_token:
  "lex_score toy_ga long_token = Inr (ln (1 / 153))"
  "lex_score toy_en long_token = Inr (ln (1 / 153))"
proof -
  have "length (lex_key long_token) = 500"
    by (simp add: lex_key_def long_token_def lower_def CASE_SENSITIVITY_THRESHOLD_def)
  then have "lex_key long_token \<noteq> w" if "length w < 4" for w
    using that by auto
  then show "lex_score toy_ga long_token = Inr (ln (1 / 153))"
    and "lex_score toy_en long_token = Inr (ln (1 / 153))"
    by (simp_all add: lex_score_def toy_ga_eq toy_en_eq dict_item_def dict_get_def OOV_def
        bind_err_def)
qed

lemma raw_scores_long_token:
  "raw_scores underflow_arith toy_ga long_token = Inr (1 / 153, 0)"
  "raw_scores underflow_arith toy_en long_token = Inr (1 / 153, 0)"
  by (simp_all add: raw_scores_def lex_score_long_token lexicon_raw_in_range
      char_score_long_token long_token_underflows bind_err_def)


lemma raw_scores_toy_ignore:
  "raw_scores exact_arith toy_ga IGNORE = Inr (1 / 153, exp (10 * ln (1 / 6) + ln (1 / 15002)))"
  "raw_scores exact_arith toy_en IGNORE = Inr (1 / 153, exp (10 * ln (1 / 6) + ln (1 / 15002)))"
  by (simp_all add: toy_ga_eq toy_en_eq raw_scores_def lex_score_def char_score_def train_eval
      IGNORE_def arith_eval lower_def lower_char_def)

lemma relative_equal_scores:
  "0 < y \<Longrightarrow> relative exact_arith (y, y) lang = Inr (1 / 2)"
  by (simp add: relative_def arith_eval lang_item_def)

text \<open>
  Claim C7 as stated does not hold, at two inputs whose raw lexicon scores are those
  of the out-of-lexicon entry in both models. For the ignore token \<^verbatim>\<open>score\<close> returns
  1 for each language, whereas the logarithm of either relative character score is
  \<open>ln (1/2)\<close>. For a token of 500 letters the character scores are below \<open>-746\<close>,
  both raw character scores underflow to zero, and \<^verbatim>\<open>score\<close> raises
  \<^verbatim>\<open>ZeroDivisionError\<close> in the division by their sum.
\<close>

theorem score_out_of_lexicon_counterexample:
  "(raw_scores exact_arith toy_ga IGNORE =
      Inr (1 / 153, exp (10 * ln (1 / 6) + ln (1 / 15002))) \<and>
    raw_scores exact_arith toy_en IGNORE =
      Inr (1 / 153, exp (10 * ln (1 / 6) + ln (1 / 15002))) \<and>
    bind_err (lex_score toy_ga OOV) (math_exp exact_arith) = Inr (1 / 153) \<and>
    bind_err (lex_score toy_en OOV) (math_exp exact_arith) = Inr (1 / 153) \<and>
    relative exact_arith (exp (10 * ln (1 / 6) + ln (1 / 15002)),
                          exp (10 * ln (1 / 6) + ln (1 / 15002))) GA = Inr (1 / 2) \<and>
    relative exact_arith (exp (10 * ln (1 / 6) + ln (1 / 15002)),
                          exp (10 * ln (1 / 6) + ln (1 / 15002))) EN = Inr (1 / 2) \<and>
    only_char exact_arith (1 / 2, 1 / 2) = Inr (ln (1 / 2), ln (1 / 2)) \<and>
    score exact_arith toy_identifier IGNORE = Inr (1, 1) \<and>
    ln (1 / 2 :: real) \<noteq> 1) \<and>
   (raw_scores underflow_arith toy_ga long_token = Inr (1 / 153, 0) \<and>
    raw_scores underflow_arith toy_en long_token = Inr (1 / 153, 0) \<and>
    bind_err (lex_score toy_ga OOV) (math_exp underflow_arith) = Inr (1 / 153) \<and>
    bind_err (lex_score toy_en OOV) (math_exp underflow_arith) = Inr (1 / 153) \<and>
    score underflow_arith toy_identifier long_token = Inl ZeroDivisionError)"
proof (intro conjI)
  show "only_char exact_arith (1 / 2, 1 / 2) = Inr (ln (1 / 2), ln (1 / 2))"
    by (simp add: only_char_def arith_eval lang_item_def bind_err_def)
  show "ln (1 / 2 :: real) \<noteq> 1"
  proof -
    have "ln (1 / 2 :: real) < 0" by simp
    then show ?thesis by linarith
  qed
  have "long_token \<noteq> IGNORE"
    by (auto simp add: long_token_def IGNORE_def dest: arg_cong [where f = length])
  moreover have "relative underflow_arith (1 / 153, 1 / 153) lang = Inr (1 / 2)" for lang
    by (simp add: relative_def float_div_def underflow_arith_def exact_arith_def lang_item_def)
  moreover have "relative underflow_arith (0, 0) lang = Inl ZeroDivisionError" for lang
    by (simp add: relative_def float_div_def underflow_arith_def exact_arith_def lang_item_def)
  ultimately show "score underflow_arith toy_identifier long_token = Inl ZeroDivisionError"
    by (simp add: score_def weighted_score_def raw_scores_long_token toy_identifier_def
        lang_item_def GA_neq_EN [symmetric] bind_err_def)
qed (simp_all add: raw_scores_toy_ignore raw_scores_long_token raw_oov_toy lexicon_raw_in_range
      relative_equal_scores score_def bind_err_def)

section \<open>The Viterbi mode with uniform probabilities\<close>
























end
